theory Spec2Isabelle
  imports Main
begin

section \<open>Tensors\<close>

text \<open>
  The program of \<^verbatim>\<open>openlrm/models/modeling_lrm.py\<close> works on torch tensors. A tensor
  is modelled as torch stores a contiguous one: a shape and the elements in row-major
  order. Every operation of the model returns a contiguous tensor; the source calls
  \<^verbatim>\<open>.contiguous()\<close> after each \<^verbatim>\<open>einsum\<close> or \<^verbatim>\<open>permute\<close> and before each
  \<^verbatim>\<open>view\<close>, so that the two agree on what \<^verbatim>\<open>view\<close> and \<^verbatim>\<open>reshape\<close> read.
  The element type is a parameter: floating-point arithmetic is not modelled.
\<close>

record 'a tensor =
  shape :: "nat list"
  data :: "'a list"

text \<open>Exceptions of the program, as values. The strings are the messages of the source.\<close>

datatype error =
    AssertionError string
  | ValueError string
  | RuntimeError string
  | IndexError
  | AttributeError string
  | UnboundLocalError string
  | KeyError string
  | TypeError string

text \<open>Sequencing: an exception ends the computation.\<close>

definition bindE :: "error + 'b \<Rightarrow> ('b \<Rightarrow> error + 'c) \<Rightarrow> error + 'c" where
  "bindE r f = (case r of Inl e \<Rightarrow> Inl e | Inr v \<Rightarrow> f v)"

text \<open>A tensor is well formed when it stores as many elements as its shape says.\<close>

definition wf :: "'a tensor \<Rightarrow> bool" where
  "wf t \<longleftrightarrow> length (data t) = prod_list (shape t)"

text \<open>\<open>in_range s idx\<close>: \<open>idx\<close> is a full index into a tensor of shape \<open>s\<close>.\<close>

fun in_range :: "nat list \<Rightarrow> nat list \<Rightarrow> bool" where
  "in_range [] [] = True"
| "in_range (d # s) (i # idx) = (i < d \<and> in_range s idx)"
| "in_range _ _ = False"

text \<open>Row-major offset of an index: the stride of an axis is the product of the later sizes.\<close>

fun offset :: "nat list \<Rightarrow> nat list \<Rightarrow> nat" where
  "offset (d # s) (i # idx) = i * prod_list s + offset s idx"
| "offset _ _ = 0"

fun index_of :: "nat list \<Rightarrow> nat \<Rightarrow> nat list" where
  "index_of [] k = []"
| "index_of (d # s) k = (k div prod_list s) # index_of s (k mod prod_list s)"

text \<open>
  The index of the element stored at place \<open>k\<close>, and the element at an index. The
  operations below read \<open>at t idx\<close> only at indices in range of a shape they have checked.
\<close>

definition at :: "'a tensor \<Rightarrow> nat list \<Rightarrow> 'a" where
  "at t idx = data t ! offset (shape t) idx"

text \<open>The contiguous tensor of shape \<open>s\<close> whose element at index \<open>idx\<close> is \<open>f idx\<close>.\<close>

definition tabulate :: "nat list \<Rightarrow> (nat list \<Rightarrow> 'a) \<Rightarrow> 'a tensor" where
  "tabulate s f = \<lparr>shape = s, data = map (\<lambda>k. f (index_of s k)) [0..<prod_list s]\<rparr>"

subsection \<open>Indexing, assignment and flipping\<close>

text \<open>
  \<^verbatim>\<open>t[:, k, :, :, :]\<close>: five subscripts, so at least five axes, and \<open>k\<close> within axis 1;
  the result drops axis 1.
\<close>

definition select1 :: "'a tensor \<Rightarrow> nat \<Rightarrow> error + 'a tensor" where
  "select1 t k =
     (case shape t of
        n # p # rest \<Rightarrow>
          if 3 \<le> length rest \<and> k < p
          then Inr (tabulate (n # rest) (\<lambda>idx. at t (hd idx # k # tl idx)))
          else Inl IndexError
      | _ \<Rightarrow> Inl IndexError)"

text \<open>
  \<^verbatim>\<open>t[:, k, :, :, :] = src\<close>, in place in the source, returning the updated tensor here.
  The source only assigns a flipped copy of the slice itself, of the slice's shape;
  broadcasting of another shape is not modelled and is an error.
\<close>

definition assign1 :: "'a tensor \<Rightarrow> nat \<Rightarrow> 'a tensor \<Rightarrow> error + 'a tensor" where
  "assign1 t k src =
     (case shape t of
        n # p # rest \<Rightarrow>
          if 3 \<le> length rest \<and> k < p
          then if shape src = n # rest
               then Inr (tabulate (shape t)
                      (\<lambda>idx. if idx ! 1 = k then at src (hd idx # drop 2 idx) else at t idx))
               else Inl (RuntimeError ''shape mismatch'')
          else Inl IndexError
      | _ \<Rightarrow> Inl IndexError)"

text \<open>
  Python's normalisation of an axis number: a negative one counts from the last axis.
\<close>

definition norm_dim :: "nat \<Rightarrow> int \<Rightarrow> nat option" where
  "norm_dim r d =
     (if 0 \<le> d \<and> d < int r then Some (nat d)
      else if d < 0 \<and> - int r \<le> d then Some (nat (int r + d))
      else None)"

fun norm_dims :: "nat \<Rightarrow> int list \<Rightarrow> nat list option" where
  "norm_dims r [] = Some []"
| "norm_dims r (d # ds) =
     (case norm_dim r d of
        None \<Rightarrow> None
      | Some j \<Rightarrow> (case norm_dims r ds of None \<Rightarrow> None | Some js \<Rightarrow> Some (j # js)))"

text \<open>The index read by a flip: along each flipped axis \<open>j\<close> of size \<open>d\<close>, \<open>i\<close> reads \<open>d - 1 - i\<close>.\<close>

fun flip_index :: "nat list \<Rightarrow> nat \<Rightarrow> nat list \<Rightarrow> nat list \<Rightarrow> nat list" where
  "flip_index js j (d # s) (i # idx) =
     (if j \<in> set js then d - 1 - i else i) # flip_index js (Suc j) s idx"
| "flip_index js j _ _ = []"

text \<open>\<^verbatim>\<open>torch.flip(t, dims)\<close>: a copy; an axis out of range or named twice is an error.\<close>

definition flip :: "'a tensor \<Rightarrow> int list \<Rightarrow> error + 'a tensor" where
  "flip t dims =
     (case norm_dims (length (shape t)) dims of
        None \<Rightarrow> Inl IndexError
      | Some js \<Rightarrow>
          if distinct js
          then Inr (tabulate (shape t) (\<lambda>idx. at t (flip_index js 0 (shape t) idx)))
          else Inl (RuntimeError ''dim appears multiple times in the list of dims''))"

text \<open>
  Lines 212 to 217 of \<^verbatim>\<open>forward\<close>: the three assignments to the back planes, in the
  order of the source, each reading the tensor the previous one left.
\<close>

definition flip_back_planes :: "'a tensor \<Rightarrow> error + 'a tensor" where
  "flip_back_planes back_planes =
     bindE (select1 back_planes 0) (\<lambda>xy.
     bindE (flip xy [-2, -1]) (\<lambda>xy'.
     bindE (assign1 back_planes 0 xy') (\<lambda>b1.
     bindE (select1 b1 1) (\<lambda>xz.
     bindE (flip xz [-1]) (\<lambda>xz'.
     bindE (assign1 b1 1 xz') (\<lambda>b2.
     bindE (select1 b2 2) (\<lambda>yz.
     bindE (flip yz [-2]) (\<lambda>yz'.
     assign1 b2 2 yz'))))))))"

text \<open>
  The policy in the words of the specification: plane 0 mirrors height and width, plane 1
  the width only, plane 2 the height only. \<open>spec_mirror H W\<close> maps a position
  (plane, row, column) to the position the policy sends it to.
\<close>

definition spec_mirror :: "nat \<Rightarrow> nat \<Rightarrow> nat \<times> nat \<times> nat \<Rightarrow> nat \<times> nat \<times> nat" where
  "spec_mirror H W pos =
     (case pos of (p, h, w) \<Rightarrow>
        if p = 0 then (p, H - 1 - h, W - 1 - w)
        else if p = 1 then (p, h, W - 1 - w)
        else if p = 2 then (p, H - 1 - h, w)
        else (p, h, w))"

subsection \<open>View, reshape, permutation, repetition and concatenation\<close>

text \<open>
  The size argument of \<^verbatim>\<open>view\<close> and \<^verbatim>\<open>reshape\<close>: \<open>Some k\<close> is the size \<open>k\<close>,
  \<open>None\<close> is the source's \<^verbatim>\<open>-1\<close>, the size torch infers. torch refuses more than one
  \<^verbatim>\<open>-1\<close>, a \<^verbatim>\<open>-1\<close> beside sizes of product 0, and sizes that do not give the number
  of elements.
\<close>

definition infer_shape :: "nat option list \<Rightarrow> nat \<Rightarrow> error + nat list" where
  "infer_shape sz n =
     (let known = prod_list (map (\<lambda>d. case d of None \<Rightarrow> 1 | Some k \<Rightarrow> k) sz);
          holes = length (filter (\<lambda>d. d = None) sz)
      in if holes = 0
         then if known = n
              then Inr (map (\<lambda>d. case d of None \<Rightarrow> 0 | Some k \<Rightarrow> k) sz)
              else Inl (RuntimeError ''shape is invalid for input size'')
         else if holes = 1
         then if known = 0
              then Inl (RuntimeError ''cannot infer the unspecified dimension'')
              else if n mod known \<noteq> 0
              then Inl (RuntimeError ''shape is invalid for input size'')
              else Inr (map (\<lambda>d. case d of None \<Rightarrow> n div known | Some k \<Rightarrow> k) sz)
         else Inl (RuntimeError ''only one dimension can be inferred''))"

text \<open>
  \<^verbatim>\<open>t.view(size)\<close>, and \<^verbatim>\<open>t.reshape(size)\<close> of a contiguous tensor: the same elements
  in the same order under another shape.
\<close>

definition view :: "nat option list \<Rightarrow> 'a tensor \<Rightarrow> error + 'a tensor" where
  "view sz t = bindE (infer_shape sz (prod_list (shape t))) (\<lambda>s. Inr (t\<lparr>shape := s\<rparr>))"

fun index_in :: "'b list \<Rightarrow> 'b \<Rightarrow> nat" where
  "index_in [] a = 0"
| "index_in (x # xs) a = (if x = a then 0 else Suc (index_in xs a))"

text \<open>
  \<^verbatim>\<open>t.permute(perm)\<close>: axis \<open>j\<close> of the result is axis \<open>perm ! j\<close> of \<open>t\<close>, so the
  element at \<open>idx\<close> of the result is the element of \<open>t\<close> whose index along axis \<open>a\<close> is
  the entry of \<open>idx\<close> at the place of \<open>a\<close> in \<open>perm\<close>. The result is materialised, as
  \<^verbatim>\<open>.contiguous()\<close> does.
\<close>

definition permute :: "nat list \<Rightarrow> 'a tensor \<Rightarrow> error + 'a tensor" where
  "permute perm t =
     (let r = length (shape t)
      in if length perm = r \<and> distinct perm \<and> list_all (\<lambda>j. j < r) perm
         then Inr (tabulate (map (\<lambda>j. shape t ! j) perm)
                (\<lambda>idx. at t (map (\<lambda>a. idx ! index_in perm a) [0..<r])))
         else Inl (RuntimeError ''permute: axes do not match the tensor''))"

text \<open>
  \<^verbatim>\<open>torch.einsum('abc->bca', t)\<close> with one operand, where the letters on the left are
  distinct and the right names each of them once: a permutation of the axes, the only use
  the source makes of \<^verbatim>\<open>einsum\<close>. Sums and diagonals are not modelled and are an error.
\<close>

definition einsum :: "string \<Rightarrow> string \<Rightarrow> 'a tensor \<Rightarrow> error + 'a tensor" where
  "einsum lhs rhs t =
     (if length lhs = length (shape t) \<and> distinct lhs \<and> length rhs = length lhs \<and>
         distinct rhs \<and> list_all (\<lambda>c. c \<in> set lhs) rhs
      then permute (map (index_in lhs) rhs) t
      else Inl (RuntimeError ''einsum: operand does not match the subscripts''))"

text \<open>
  \<^verbatim>\<open>t.repeat(N, 1, 1)\<close> of a tensor of three axes: \<open>N\<close> copies along the first axis.
\<close>

definition repeat_first :: "nat \<Rightarrow> 'a tensor \<Rightarrow> error + 'a tensor" where
  "repeat_first N t =
     (case shape t of
        [b, l, d] \<Rightarrow> Inr \<lparr>shape = [N * b, l, d], data = concat (replicate N (data t))\<rparr>
      | _ \<Rightarrow> Inl (RuntimeError ''repeat: number of dimensions''))"

text \<open>
  \<^verbatim>\<open>torch.cat((a, b), dim=2)\<close>: the same number of axes and the same sizes but along
  axis 2, whose sizes add up.
\<close>

definition cat2 :: "'a tensor \<Rightarrow> 'a tensor \<Rightarrow> error + 'a tensor" where
  "cat2 a b =
     (let sa = shape a; sb = shape b
      in if 3 \<le> length sa \<and> length sb = length sa \<and> sb[2 := sa ! 2] = sa
         then Inr (tabulate (sa[2 := sa ! 2 + sb ! 2])
                (\<lambda>idx. if idx ! 2 < sa ! 2 then at a idx
                       else at b (idx[2 := idx ! 2 - sa ! 2])))
         else Inl (RuntimeError ''cat: sizes of tensors must match''))"

text \<open>\<^verbatim>\<open>t.shape[i]\<close> and \<^verbatim>\<open>t.shape[-1]\<close>.\<close>

definition size_at :: "'a tensor \<Rightarrow> nat \<Rightarrow> error + nat" where
  "size_at t i = (if i < length (shape t) then Inr (shape t ! i) else Inl IndexError)"

definition size_last :: "'a tensor \<Rightarrow> error + nat" where
  "size_last t = (if shape t = [] then Inl IndexError else Inr (last (shape t)))"

text \<open>Python's \<^verbatim>\<open>assert\<close>, with assertions enabled (no \<^verbatim>\<open>-O\<close>).\<close>

definition assert :: "bool \<Rightarrow> string \<Rightarrow> error + unit" where
  "assert c msg = (if c then Inr () else Inl (AssertionError msg))"

subsection \<open>Dictionaries\<close>

text \<open>
  A Python dictionary with string keys: the keys and their values in insertion order.
  \<open>map_of d k\<close> is \<^verbatim>\<open>d[k]\<close>, \<open>None\<close> where Python raises \<^verbatim>\<open>KeyError\<close>; assigning
  to a key that is present keeps its place.
\<close>

type_synonym 'a dict = "(string \<times> 'a tensor) list"

fun dict_update :: "string \<Rightarrow> 'a tensor \<Rightarrow> 'a dict \<Rightarrow> 'a dict" where
  "dict_update k v [] = [(k, v)]"
| "dict_update k v ((k', v') # kvs) =
     (if k' = k then (k, v) # kvs else (k', v') # dict_update k v kvs)"

section \<open>The model object\<close>

text \<open>
  An \<^verbatim>\<open>nn.Parameter\<close>: a tensor and its \<^verbatim>\<open>requires_grad\<close> flag. It has no method
  \<^verbatim>\<open>parameters\<close>.
\<close>

record 'a parameter =
  param :: "'a tensor"
  requires_grad :: bool

text \<open>
  A submodule whose class is imported from another file of the repository (the encoder
  wrappers, \<^verbatim>\<open>CameraEmbedder\<close>, \<^verbatim>\<open>TransformerDecoder\<close>, \<^verbatim>\<open>TriplaneSynthesizer\<close>,
  \<^verbatim>\<open>CrossAttentionLayer\<close>): what calling it returns, and the parameters its method
  \<^verbatim>\<open>parameters()\<close> yields.
\<close>

record ('a, 'i, 'o) submodule =
  call :: "'i \<Rightarrow> error + 'o"
  parameters :: "'a parameter list"

text \<open>
  \<^verbatim>\<open>nn.ConvTranspose2d(cin, cout, kernel_size=2, stride=2, padding=0)\<close>, the upsampler.
  Its weight has the shape \<open>[cin, cout, 2, 2]\<close> and its bias \<open>[cout]\<close>. Stride and kernel
  size are equal, so each output pixel \<open>(y, x)\<close> receives one term per input channel, from
  input pixel \<open>(y div 2, x div 2)\<close> through kernel entry \<open>(y mod 2, x mod 2)\<close>. The
  source calls it on four axes only; the batch elements are transformed independently.
\<close>

record 'a conv_transpose =
  weight :: "'a parameter"
  bias :: "'a parameter"

definition conv_transpose2d ::
  "('a::semiring_0) conv_transpose \<Rightarrow> 'a tensor \<Rightarrow> error + 'a tensor" where
  "conv_transpose2d up x =
     (case shape x of
        [B, C, H, W] \<Rightarrow>
          if C = shape (param (weight up)) ! 0
          then Inr (tabulate [B, shape (param (weight up)) ! 1, 2 * H, 2 * W]
                 (\<lambda>idx. at (param (bias up)) [idx ! 1] +
                    (\<Sum>ci\<leftarrow>[0..<C]. at x [idx ! 0, ci, idx ! 2 div 2, idx ! 3 div 2] *
                       at (param (weight up)) [ci, idx ! 1, idx ! 2 mod 2, idx ! 3 mod 2])))
          else Inl (RuntimeError ''expected input to have the layer's input channels'')
      | _ \<Rightarrow> Inl (RuntimeError ''expected 4D input''))"

text \<open>
  The layers of the convolutional fusion stack. Their arithmetic (a 3x3 convolution, layer
  normalisation, GELU) is floating point and is a parameter of the layer: \<open>content\<close> gives
  the element of the result at each index from the input. What torch fixes is modelled:
  \<^item> \<^verbatim>\<open>nn.Conv2d(cin, cout, kernel_size=(3, 3), stride=(1, 1), padding=1)\<close> takes
    \<open>[B, cin, H, W]\<close> to \<open>[B, cout, H, W]\<close> and refuses another channel count;
  \<^item> \<^verbatim>\<open>nn.LayerNorm(normalized_shape)\<close> keeps the shape and refuses an input whose last
    axes are not \<open>normalized_shape\<close>;
  \<^item> \<^verbatim>\<open>nn.GELU()\<close> keeps the shape.
\<close>

datatype 'a layer =
    Conv2d nat nat "'a tensor \<Rightarrow> nat list \<Rightarrow> 'a"
  | LayerNorm "nat list" "'a tensor \<Rightarrow> nat list \<Rightarrow> 'a"
  | GELU "'a \<Rightarrow> 'a"

fun apply_layer :: "'a layer \<Rightarrow> 'a tensor \<Rightarrow> error + 'a tensor" where
  "apply_layer (Conv2d cin cout content) x =
     (case shape x of
        [B, C, H, W] \<Rightarrow>
          if C = cin then Inr (tabulate [B, cout, H, W] (content x))
          else Inl (RuntimeError ''expected input to have the layer's input channels'')
      | _ \<Rightarrow> Inl (RuntimeError ''expected 4D input''))"
| "apply_layer (LayerNorm normalized_shape content) x =
     (if length normalized_shape \<le> length (shape x) \<and>
         drop (length (shape x) - length normalized_shape) (shape x) = normalized_shape
      then Inr (tabulate (shape x) (content x))
      else Inl (RuntimeError ''input does not match normalized_shape''))"
| "apply_layer (GELU g) x = Inr (x\<lparr>data := map g (data x)\<rparr>)"

text \<open>The attributes of \<^verbatim>\<open>self\<close>. An attribute that \<^verbatim>\<open>__init__\<close> may leave unset is an option.\<close>

record 'a model =
  encoder_feat_dim :: nat
  camera_embed_dim :: nat
  triplane_low_res :: nat
  triplane_high_res :: nat
  triplane_dim :: nat
  conv_fuse :: bool
  swin_ca_fuse :: bool
  encoder :: "('a, 'a tensor, 'a tensor) submodule"
  camera_embedder :: "('a, 'a tensor, 'a tensor) submodule"
  pos_embed :: "'a parameter"
  transformer :: "('a, 'a tensor \<times> 'a tensor \<times> 'a tensor, 'a tensor) submodule"
  upsampler :: "'a conv_transpose"
  synthesizer ::
    "('a, 'a tensor \<times> 'a tensor \<times> 'a tensor \<times> 'a tensor \<times> 'a tensor \<times> int,
      'a dict) submodule"
  front_back_conv :: "'a layer list option"
  swin_cross_attention ::
    "('a, 'a tensor \<times> 'a tensor \<times> nat \<times> nat, 'a tensor list) submodule option"

text \<open>
  The arguments of \<^verbatim>\<open>__init__\<close>, each under its name in the source with the prefix
  \<open>arg_\<close>. Sizes and counts are natural numbers; \<^verbatim>\<open>model_lora_rank\<close> is an integer,
  since the source compares it with 0.
\<close>

record config =
  arg_camera_embed_dim :: nat
  arg_rendering_samples_per_ray :: nat
  arg_transformer_dim :: nat
  arg_transformer_layers :: nat
  arg_transformer_heads :: nat
  arg_triplane_low_res :: nat
  arg_triplane_high_res :: nat
  arg_triplane_dim :: nat
  arg_encoder_freeze :: bool
  arg_encoder_type :: string
  arg_encoder_model_name :: string
  arg_encoder_feat_dim :: nat
  arg_model_lora_rank :: int
  arg_conv_fuse :: bool
  arg_swin_ca_fuse :: bool
  arg_ca_dim :: nat
  arg_ca_depth :: nat
  arg_ca_num_heads :: nat
  arg_ca_window_size :: nat

text \<open>
  What \<^verbatim>\<open>__init__\<close> takes from outside the file: the classes it instantiates, the
  \<^verbatim>\<open>loratorch\<close> function it calls, and the initial values torch draws for the positional
  grid (already scaled), for the upsampler and for the fusion stack. The constructors are
  taken to return; a failure inside one of them is not modelled.
\<close>

record 'a externals =
  DinoWrapper :: "string \<Rightarrow> bool \<Rightarrow> ('a, 'a tensor, 'a tensor) submodule"
  Dinov2Wrapper :: "string \<Rightarrow> bool \<Rightarrow> ('a, 'a tensor, 'a tensor) submodule"
  CameraEmbedder :: "nat \<Rightarrow> nat \<Rightarrow> ('a, 'a tensor, 'a tensor) submodule"
  TransformerDecoder ::
    "string \<Rightarrow> nat \<Rightarrow> nat \<Rightarrow> nat \<Rightarrow> nat \<Rightarrow> nat \<Rightarrow> int option \<Rightarrow>
     ('a, 'a tensor \<times> 'a tensor \<times> 'a tensor, 'a tensor) submodule"
  mark_only_lora_as_trainable ::
    "('a, 'a tensor \<times> 'a tensor \<times> 'a tensor, 'a tensor) submodule \<Rightarrow>
     ('a, 'a tensor \<times> 'a tensor \<times> 'a tensor, 'a tensor) submodule"
  TriplaneSynthesizer ::
    "nat \<Rightarrow> nat \<Rightarrow>
     ('a, 'a tensor \<times> 'a tensor \<times> 'a tensor \<times> 'a tensor \<times> 'a tensor \<times> int,
      'a dict) submodule"
  CrossAttentionLayer ::
    "nat \<Rightarrow> nat \<Rightarrow> nat \<Rightarrow> nat \<Rightarrow>
     ('a, 'a tensor \<times> 'a tensor \<times> nat \<times> nat, 'a tensor list) submodule"
  pos_embed_init :: "nat list \<Rightarrow> 'a"
  upsampler_weight_init :: "nat list \<Rightarrow> 'a"
  upsampler_bias_init :: "nat list \<Rightarrow> 'a"
  conv_content :: "nat \<Rightarrow> 'a tensor \<Rightarrow> nat list \<Rightarrow> 'a"
  norm_content :: "nat \<Rightarrow> 'a tensor \<Rightarrow> nat list \<Rightarrow> 'a"
  gelu :: "'a \<Rightarrow> 'a"

subsection \<open>freeze_modules\<close>

definition frozen :: "'a parameter list \<Rightarrow> 'a parameter list" where
  "frozen ps = map (\<lambda>p. p\<lparr>requires_grad := False\<rparr>) ps"

text \<open>
  \<^verbatim>\<open>freeze_modules\<close> mutates \<^verbatim>\<open>self\<close>: the result is the object as the call leaves it and
  the exception it raised, if any. The branches run in the order of the source, so the
  object keeps what the earlier branches did when a later one raises. The third branch
  calls \<^verbatim>\<open>self.pos_embed.parameters()\<close> on an \<^verbatim>\<open>nn.Parameter\<close>.
\<close>

definition freeze_modules ::
  "'a model \<Rightarrow> bool \<Rightarrow> bool \<Rightarrow> bool \<Rightarrow> bool \<Rightarrow> bool \<Rightarrow> bool \<Rightarrow> 'a model \<times> error option" where
  "freeze_modules self enc cam pos tr up syn =
     (let m1 = (if enc
                then self\<lparr>encoder := (encoder self)\<lparr>parameters := frozen (parameters (encoder self))\<rparr>\<rparr>
                else self);
          m2 = (if cam
                then m1\<lparr>camera_embedder :=
                       (camera_embedder m1)\<lparr>parameters := frozen (parameters (camera_embedder m1))\<rparr>\<rparr>
                else m1)
      in if pos
         then (m2, Some (AttributeError ''Parameter object has no attribute parameters''))
         else
          (let m3 = (if tr
                     then m2\<lparr>transformer :=
                            (transformer m2)\<lparr>parameters := frozen (parameters (transformer m2))\<rparr>\<rparr>
                     else m2);
               m4 = (if up
                     then m3\<lparr>upsampler :=
                            \<lparr>weight = (weight (upsampler m3))\<lparr>requires_grad := False\<rparr>,
                             bias = (bias (upsampler m3))\<lparr>requires_grad := False\<rparr>\<rparr>\<rparr>
                     else m3);
               m5 = (if syn
                     then m4\<lparr>synthesizer :=
                            (synthesizer m4)\<lparr>parameters := frozen (parameters (synthesizer m4))\<rparr>\<rparr>
                     else m4)
           in (m5, None)))"

subsection \<open>Construction\<close>

text \<open>
  \<^verbatim>\<open>str.lower\<close> on ASCII letters. No character outside ASCII lowers to one of the letters
  of the two names \<^verbatim>\<open>_encoder_fn\<close> compares with, so the comparison is the source's.
\<close>

definition lower_char :: "char \<Rightarrow> char" where
  "lower_char c =
     (case map_of (zip ''ABCDEFGHIJKLMNOPQRSTUVWXYZ'' ''abcdefghijklmnopqrstuvwxyz'') c of
        None \<Rightarrow> c
      | Some l \<Rightarrow> l)"

definition lower :: "string \<Rightarrow> string" where
  "lower s = map lower_char s"

datatype encoder_class = DinoWrapperClass | Dinov2WrapperClass

text \<open>\<^verbatim>\<open>_encoder_fn\<close>; \<open>None\<close> is Python's \<^verbatim>\<open>None\<close>, returned when no branch returns.\<close>

definition encoder_fn :: "string \<Rightarrow> error + encoder_class option" where
  "encoder_fn encoder_type =
     (let encoder_type = lower encoder_type
      in bindE (assert (encoder_type \<in> set [''dino'', ''dinov2'']) ''Unsupported encoder type'')
           (\<lambda>_. if encoder_type = ''dino'' then Inr (Some DinoWrapperClass)
                 else if encoder_type = ''dinov2'' then Inr (Some Dinov2WrapperClass)
                 else Inr None))"

text \<open>The seven layers of \<^verbatim>\<open>front_back_conv\<close>.\<close>

definition front_back_conv_layers :: "'a externals \<Rightarrow> config \<Rightarrow> 'a layer list" where
  "front_back_conv_layers ext c =
     [Conv2d (arg_triplane_dim c * 2) (arg_triplane_dim c * 4) (conv_content ext 0),
      LayerNorm [arg_triplane_dim c * 4, arg_triplane_high_res c, arg_triplane_high_res c]
        (norm_content ext 1),
      GELU (gelu ext),
      Conv2d (arg_triplane_dim c * 4) (arg_triplane_dim c * 4) (conv_content ext 3),
      LayerNorm [arg_triplane_dim c * 4, arg_triplane_high_res c, arg_triplane_high_res c]
        (norm_content ext 4),
      GELU (gelu ext),
      Conv2d (arg_triplane_dim c * 4) (arg_triplane_dim c) (conv_content ext 6)]"

text \<open>\<^verbatim>\<open>__init__\<close>: the constructed object, or the exception that ends the construction.\<close>

definition init :: "'a externals \<Rightarrow> config \<Rightarrow> error + 'a model" where
  "init ext c =
     bindE (encoder_fn (arg_encoder_type c)) (\<lambda>cls.
     bindE (case cls of
              None \<Rightarrow> Inl (TypeError ''NoneType object is not callable'')
            | Some DinoWrapperClass \<Rightarrow>
                Inr (DinoWrapper ext (arg_encoder_model_name c) (arg_encoder_freeze c))
            | Some Dinov2WrapperClass \<Rightarrow>
                Inr (Dinov2Wrapper ext (arg_encoder_model_name c) (arg_encoder_freeze c))) (\<lambda>enc.
     let self =
       \<lparr>encoder_feat_dim = arg_encoder_feat_dim c,
        camera_embed_dim = arg_camera_embed_dim c,
        triplane_low_res = arg_triplane_low_res c,
        triplane_high_res = arg_triplane_high_res c,
        triplane_dim = arg_triplane_dim c,
        conv_fuse = arg_conv_fuse c,
        swin_ca_fuse = arg_swin_ca_fuse c,
        encoder = enc,
        camera_embedder = CameraEmbedder ext (12 + 4) (arg_camera_embed_dim c),
        pos_embed =
          \<lparr>param = tabulate [1, 3 * (arg_triplane_low_res c)\<^sup>2, arg_transformer_dim c]
                     (pos_embed_init ext),
           requires_grad = True\<rparr>,
        transformer =
          (if 0 < arg_model_lora_rank c
           then mark_only_lora_as_trainable ext
                  (TransformerDecoder ext ''cond_mod'' (arg_transformer_layers c)
                     (arg_transformer_heads c) (arg_transformer_dim c) (arg_encoder_feat_dim c)
                     (arg_camera_embed_dim c) (Some (arg_model_lora_rank c)))
           else TransformerDecoder ext ''cond_mod'' (arg_transformer_layers c)
                  (arg_transformer_heads c) (arg_transformer_dim c) (arg_encoder_feat_dim c)
                  (arg_camera_embed_dim c) None),
        upsampler =
          \<lparr>weight = \<lparr>param = tabulate [arg_transformer_dim c, arg_triplane_dim c, 2, 2]
                                (upsampler_weight_init ext),
                      requires_grad = True\<rparr>,
           bias = \<lparr>param = tabulate [arg_triplane_dim c] (upsampler_bias_init ext),
                    requires_grad = True\<rparr>\<rparr>,
        synthesizer =
          TriplaneSynthesizer ext (arg_triplane_dim c) (arg_rendering_samples_per_ray c),
        front_back_conv = None,
        swin_cross_attention = None\<rparr>
     in if 0 < arg_model_lora_rank c
        then if conv_fuse self
             then (case freeze_modules
                          (self\<lparr>front_back_conv :=
                             Some (front_back_conv_layers ext c)\<rparr>)
                          True True False False False False of
                     (self', None) \<Rightarrow> Inr self'
                   | (self', Some e) \<Rightarrow> Inl e)
             else if swin_ca_fuse self
             then (case freeze_modules
                          (self\<lparr>swin_cross_attention :=
                             Some (CrossAttentionLayer ext (arg_ca_dim c) (arg_ca_depth c)
                                     (arg_ca_num_heads c) (arg_ca_window_size c))\<rparr>)
                          True True False False False False of
                     (self', None) \<Rightarrow> Inr self'
                   | (self', Some e) \<Rightarrow> Inl e)
             else Inl (ValueError
                         ''You need to specify a method for fusing the front and the back.'')
        else Inr self))"

section \<open>The forward pass\<close>

text \<open>
  A run of a method returns the list of calls it made to submodules, each with the tensors
  it passed, in order, and either the exception that ended it or its result.
\<close>

datatype callee =
    EncoderCall | CameraEmbedderCall | TransformerCall | UpsamplerCall
  | FrontBackConvCall | SwinCrossAttentionCall | SynthesizerCall

type_synonym ('a, 'r) traced = "(callee \<times> 'a tensor list) list \<times> (error + 'r)"

definition bindT :: "('a, 'r) traced \<Rightarrow> ('r \<Rightarrow> ('a, 's) traced) \<Rightarrow> ('a, 's) traced" where
  "bindT p f =
     (case p of
        (l, Inl e) \<Rightarrow> (l, Inl e)
      | (l, Inr v) \<Rightarrow> (case f v of (l', r) \<Rightarrow> (l @ l', r)))"

text \<open>A step that calls no submodule.\<close>

definition liftE :: "error + 'r \<Rightarrow> ('a, 'r) traced" where
  "liftE r = ([], r)"

text \<open>A call of the submodule \<open>k\<close> on the tensors \<open>args\<close>, with what it returned.\<close>

definition invoke :: "callee \<Rightarrow> 'a tensor list \<Rightarrow> error + 'r \<Rightarrow> ('a, 'r) traced" where
  "invoke k args r = ([(k, args)], r)"

definition forward_transformer ::
  "'a model \<Rightarrow> 'a tensor \<Rightarrow> 'a tensor \<Rightarrow> ('a, 'a tensor) traced" where
  "forward_transformer self image_feats camera_embeddings =
     bindT (liftE (bindE (size_at image_feats 0) (\<lambda>a.
                   bindE (size_at camera_embeddings 0) (\<lambda>b.
                   assert (a = b)
                     ''Batch size mismatch for image_feats and camera_embeddings!'')))) (\<lambda>_.
     bindT (liftE (size_at image_feats 0)) (\<lambda>N.
     bindT (liftE (repeat_first N (param (pos_embed self)))) (\<lambda>x.
     invoke TransformerCall [x, image_feats, camera_embeddings]
       (call (transformer self) (x, image_feats, camera_embeddings)))))"

definition reshape_upsample ::
  "('a::semiring_0) model \<Rightarrow> 'a tensor \<Rightarrow> ('a, 'a tensor) traced" where
  "reshape_upsample self tokens =
     bindT (liftE (size_at tokens 0)) (\<lambda>N.
     let H = triplane_low_res self; W = triplane_low_res self in
     bindT (liftE (view [Some N, Some 3, Some H, Some W, None] tokens)) (\<lambda>x.
     bindT (liftE (einsum ''nihwd'' ''indhw'' x)) (\<lambda>x.
     bindT (liftE (view [Some (3 * N), None, Some H, Some W] x)) (\<lambda>x.
     bindT (invoke UpsamplerCall [x] (conv_transpose2d (upsampler self) x)) (\<lambda>x.
     bindT (liftE (view ([Some 3, Some N] @ map Some (drop (length (shape x) - 3) (shape x))) x))
       (\<lambda>x.
     liftE (einsum ''indhw'' ''nidhw'' x)))))))"

text \<open>
  \<^verbatim>\<open>forward_planes\<close>. The messages of the two first assertions are f-strings
  in the source; the model keeps their fixed part. The argument \<^verbatim>\<open>image\<close> of the source
  is \<open>img\<close> here and in \<open>forward\<close>.
\<close>

definition forward_planes ::
  "('a::semiring_0) model \<Rightarrow> 'a tensor \<Rightarrow> 'a tensor \<Rightarrow> ('a, 'a tensor) traced" where
  "forward_planes self img camera =
     bindT (liftE (size_at img 0)) (\<lambda>N.
     bindT (invoke EncoderCall [img] (call (encoder self) img)) (\<lambda>image_feats.
     bindT (liftE (bindE (size_last image_feats) (\<lambda>d.
                   assert (d = encoder_feat_dim self) ''Feature dimension mismatch''))) (\<lambda>_.
     bindT (invoke CameraEmbedderCall [camera] (call (camera_embedder self) camera))
       (\<lambda>camera_embeddings.
     bindT (liftE (bindE (size_last camera_embeddings) (\<lambda>d.
                   assert (d = camera_embed_dim self) ''Feature dimension mismatch''))) (\<lambda>_.
     bindT (forward_transformer self image_feats camera_embeddings) (\<lambda>tokens.
     bindT (reshape_upsample self tokens) (\<lambda>planes.
     bindT (liftE (bindE (size_at planes 0) (\<lambda>b.
                   assert (b = N) ''Batch size mismatch for planes''))) (\<lambda>_.
     bindT (liftE (bindE (size_at planes 1) (\<lambda>p.
                   assert (p = 3) ''Planes should have 3 channels''))) (\<lambda>_.
     liftE (Inr planes))))))))))"

subsection \<open>Fusion of the front and the back planes\<close>

text \<open>The loop \<^verbatim>\<open>for layer in self.front_back_conv: planes = layer(planes)\<close>.\<close>

fun apply_layers :: "'a layer list \<Rightarrow> 'a tensor \<Rightarrow> ('a, 'a tensor) traced" where
  "apply_layers [] planes = liftE (Inr planes)"
| "apply_layers (layer # layers) planes =
     bindT (invoke FrontBackConvCall [planes] (apply_layer layer planes)) (apply_layers layers)"

text \<open>
  The branch \<^verbatim>\<open>if self.conv_fuse:\<close> of \<^verbatim>\<open>forward\<close>; \<open>bs\<close>, \<open>num_planes\<close>, \<open>channels\<close>,
  \<open>height\<close> and \<open>width\<close> are the sizes of the front planes.
\<close>

definition conv_fusion ::
  "'a model \<Rightarrow> nat \<Rightarrow> nat \<Rightarrow> nat \<Rightarrow> nat \<Rightarrow> nat \<Rightarrow> 'a tensor \<Rightarrow> 'a tensor \<Rightarrow>
   ('a, 'a tensor) traced" where
  "conv_fusion self bs num_planes channels height width front_planes back_planes =
     bindT (liftE (cat2 front_planes back_planes)) (\<lambda>planes.
     bindT (liftE (view [None, Some (channels * 2), Some height, Some width] planes)) (\<lambda>planes.
     bindT (case front_back_conv self of
              None \<Rightarrow> liftE (Inl (AttributeError ''front_back_conv''))
            | Some layers \<Rightarrow> apply_layers layers planes) (\<lambda>planes.
     liftE (view [Some bs, Some num_planes, None, Some height, Some width] planes))))"

text \<open>The branch \<^verbatim>\<open>elif self.swin_ca_fuse:\<close>.\<close>

definition swin_ca_fusion ::
  "'a model \<Rightarrow> nat \<Rightarrow> nat \<Rightarrow> nat \<Rightarrow> nat \<Rightarrow> nat \<Rightarrow> 'a tensor \<Rightarrow> 'a tensor \<Rightarrow>
   ('a, 'a tensor) traced" where
  "swin_ca_fusion self bs num_planes channels height width front_planes back_planes =
     bindT (liftE (bindE (view [Some (bs * num_planes), Some channels, Some (height * width)]
                            front_planes) (permute [0, 2, 1]))) (\<lambda>front_planes.
     bindT (liftE (bindE (view [Some (bs * num_planes), Some channels, Some (height * width)]
                            back_planes) (permute [0, 2, 1]))) (\<lambda>back_planes.
     bindT (case swin_cross_attention self of
              None \<Rightarrow> liftE (Inl (AttributeError ''swin_cross_attention''))
            | Some layer \<Rightarrow>
                invoke SwinCrossAttentionCall [front_planes, back_planes]
                  (call layer (front_planes, back_planes, height, width))) (\<lambda>outs.
     liftE (case outs of
              [] \<Rightarrow> Inl IndexError
            | out # _ \<Rightarrow>
                bindE (permute [0, 2, 1] out)
                  (view [Some bs, Some num_planes, Some channels, Some height, Some width])))))"

text \<open>
  Lines 220 to 233: the sizes of the front planes are unpacked, then one branch runs.
  The \<^verbatim>\<open>if\<close> has no \<^verbatim>\<open>else\<close>: with neither flag set the local variable
  \<^verbatim>\<open>planes\<close> stays unbound, which is the result \<open>None\<close>.
\<close>

definition fuse ::
  "'a model \<Rightarrow> 'a tensor \<Rightarrow> 'a tensor \<Rightarrow> ('a, 'a tensor option) traced" where
  "fuse self front_planes back_planes =
     (case shape front_planes of
        [bs, num_planes, channels, height, width] \<Rightarrow>
          if conv_fuse self
          then bindT (conv_fusion self bs num_planes channels height width
                        front_planes back_planes) (\<lambda>planes. liftE (Inr (Some planes)))
          else if swin_ca_fuse self
          then bindT (swin_ca_fusion self bs num_planes channels height width
                        front_planes back_planes) (\<lambda>planes. liftE (Inr (Some planes)))
          else liftE (Inr None)
      | _ \<Rightarrow> liftE (Inl (ValueError ''not enough or too many values to unpack'')))"

subsection \<open>forward\<close>

text \<open>The four assertions that open \<^verbatim>\<open>forward\<close>, lines 202 to 205.\<close>

definition validate ::
  "'a tensor \<Rightarrow> 'a tensor \<Rightarrow> 'a tensor \<Rightarrow> 'a tensor \<Rightarrow> 'a tensor \<Rightarrow> error + unit" where
  "validate img source_camera render_cameras render_anchors render_bg_colors =
     bindE (bindE (size_at img 0) (\<lambda>a. bindE (size_at source_camera 0) (\<lambda>b.
              assert (a = b) ''Batch size mismatch for image and source_camera''))) (\<lambda>_.
     bindE (bindE (size_at img 0) (\<lambda>a. bindE (size_at render_cameras 0) (\<lambda>b.
              assert (a = b) ''Batch size mismatch for image and render_cameras''))) (\<lambda>_.
     bindE (bindE (size_at img 0) (\<lambda>a. bindE (size_at render_anchors 0) (\<lambda>b.
              assert (a = b) ''Batch size mismatch for image and render_anchors''))) (\<lambda>_.
     bindE (size_at img 0) (\<lambda>a. bindE (size_at render_bg_colors 0) (\<lambda>b.
              assert (a = b) ''Batch size mismatch for image and render_bg_colors'')))))"

text \<open>
  Lines 208 to 235 of \<^verbatim>\<open>forward\<close>: the planes from one image, or from two images and
  the fusion. \<open>image_back\<close> is \<open>None\<close> for Python's \<^verbatim>\<open>None\<close>. The result \<open>None\<close>
  is the local variable \<^verbatim>\<open>planes\<close> left unbound.
\<close>

definition dispatch_planes ::
  "('a::semiring_0) model \<Rightarrow> 'a tensor \<Rightarrow> 'a tensor \<Rightarrow> 'a tensor option \<Rightarrow>
   ('a, 'a tensor option) traced" where
  "dispatch_planes self img source_camera image_back =
     (case image_back of
        Some image_back \<Rightarrow>
          bindT (forward_planes self img source_camera) (\<lambda>front_planes.
          bindT (forward_planes self image_back source_camera) (\<lambda>back_planes.
          bindT (liftE (flip_back_planes back_planes)) (\<lambda>back_planes.
          fuse self front_planes back_planes)))
      | None \<Rightarrow>
          bindT (forward_planes self img source_camera) (\<lambda>planes.
          liftE (Inr (Some planes))))"

text \<open>
  \<^verbatim>\<open>forward\<close>. Reading the unbound \<^verbatim>\<open>planes\<close> at line 238 raises
  \<^verbatim>\<open>UnboundLocalError\<close>. The result is the dictionary the source returns,
  \<^verbatim>\<open>{'planes': planes, **render_results}\<close>: a key of \<^verbatim>\<open>render_results\<close> overrides
  \<^verbatim>\<open>'planes'\<close>.
\<close>

definition forward ::
  "('a::semiring_0) model \<Rightarrow> 'a tensor \<Rightarrow> 'a tensor \<Rightarrow> 'a tensor \<Rightarrow> 'a tensor \<Rightarrow> 'a tensor \<Rightarrow>
   'a tensor \<Rightarrow> int \<Rightarrow> 'a tensor option \<Rightarrow> ('a, 'a dict) traced" where
  "forward self img source_camera render_cameras render_anchors render_resolutions
     render_bg_colors render_region_size image_back =
     bindT (liftE (validate img source_camera render_cameras render_anchors
                     render_bg_colors)) (\<lambda>_.
     bindT (liftE (case shape render_cameras of
                     N # M # _ \<Rightarrow> Inr (N, M)
                   | _ \<Rightarrow> Inl (ValueError ''not enough values to unpack''))) (\<lambda>(N, M).
     bindT (dispatch_planes self img source_camera image_back) (\<lambda>planes.
     bindT (liftE (case planes of
                     None \<Rightarrow> Inl (UnboundLocalError ''planes'')
                   | Some planes \<Rightarrow> Inr planes)) (\<lambda>planes.
     bindT (invoke SynthesizerCall
              [planes, render_cameras, render_anchors, render_resolutions, render_bg_colors]
              (call (synthesizer self)
                 (planes, render_cameras, render_anchors, render_resolutions, render_bg_colors,
                  render_region_size))) (\<lambda>render_results.
     bindT (liftE (case map_of render_results ''images_rgb'' of
                     None \<Rightarrow> Inl (KeyError ''images_rgb'')
                   | Some images_rgb \<Rightarrow>
                       bindE (bindE (size_at images_rgb 0) (\<lambda>b.
                                assert (b = N) ''Batch size mismatch for render_results''))
                         (\<lambda>_. bindE (size_at images_rgb 1) (\<lambda>v.
                                assert (v = M)
                                  ''Number of rendered views should be consistent with render_cameras'')))) (\<lambda>_.
     liftE (Inr (fold (\<lambda>(k, v). dict_update k v) render_results [(''planes'', planes)]))))))))"

section \<open>Concrete inputs\<close>

text \<open>Back planes of one batch element and one channel, 2 by 2, numbered in storage order.\<close>

definition T0 :: "int tensor" where
  "T0 = \<lparr>shape = [1, 3, 1, 2, 2], data = [0, 1, 2, 3, 4, 5, 6, 7, 8, 9, 10, 11]\<rparr>"

text \<open>
  Collaborators for concrete runs, over the integers. The encoder returns one token of
  two features per image, the camera embedder the embedding size it was built with, the
  decoder its positional tokens, the renderer one pixel per requested view, and the
  cross-attention layer its first argument.
\<close>

definition ext0 :: "int externals" where
  "ext0 =
     \<lparr>DinoWrapper = (\<lambda>model_name freeze.
        \<lparr>call = (\<lambda>x. case shape x of
                   [N, C, H, W] \<Rightarrow> Inr (tabulate [N, 1, 2] (\<lambda>idx. 1))
                 | _ \<Rightarrow> Inl (RuntimeError ''encoder: expected 4D input'')),
         parameters = [\<lparr>param = tabulate [1] (\<lambda>idx. 0), requires_grad = \<not> freeze\<rparr>]\<rparr>),
      Dinov2Wrapper = (\<lambda>model_name freeze.
        \<lparr>call = (\<lambda>x. case shape x of
                   [N, C, H, W] \<Rightarrow> Inr (tabulate [N, 1, 2] (\<lambda>idx. 2))
                 | _ \<Rightarrow> Inl (RuntimeError ''encoder: expected 4D input'')),
         parameters = [\<lparr>param = tabulate [1] (\<lambda>idx. 0), requires_grad = \<not> freeze\<rparr>]\<rparr>),
      CameraEmbedder = (\<lambda>raw_dim embed_dim.
        \<lparr>call = (\<lambda>x. case shape x of
                   [N, r] \<Rightarrow> if r = raw_dim then Inr (tabulate [N, embed_dim] (\<lambda>idx. 0))
                             else Inl (RuntimeError ''embedder: raw camera size'')
                 | _ \<Rightarrow> Inl (RuntimeError ''embedder: expected 2D input'')),
         parameters = [\<lparr>param = tabulate [1] (\<lambda>idx. 0), requires_grad = True\<rparr>]\<rparr>),
      TransformerDecoder = (\<lambda>block_type num_layers num_heads inner_dim cond_dim mod_dim lora_rank.
        \<lparr>call = (\<lambda>(x, cond, modulation). Inr x),
         parameters = [\<lparr>param = tabulate [1] (\<lambda>idx. 0), requires_grad = True\<rparr>]\<rparr>),
      mark_only_lora_as_trainable = (\<lambda>m. m\<lparr>parameters := frozen (parameters m)\<rparr>),
      TriplaneSynthesizer = (\<lambda>dim samples_per_ray.
        \<lparr>call = (\<lambda>(planes, cameras, anchors, resolutions, bg_colors, region_size).
                   case shape cameras of
                     N # M # _ \<Rightarrow> Inr [(''images_rgb'', tabulate [N, M, 3, 1, 1] (\<lambda>idx. 0))]
                   | _ \<Rightarrow> Inl (RuntimeError ''synthesizer: cameras'')),
         parameters = [\<lparr>param = tabulate [1] (\<lambda>idx. 0), requires_grad = True\<rparr>]\<rparr>),
      CrossAttentionLayer = (\<lambda>dim depth num_heads window_size.
        \<lparr>call = (\<lambda>(front, back, height, width). Inr [front, back]),
         parameters = []\<rparr>),
      pos_embed_init = (\<lambda>idx. 1 + int (idx ! 1)),
      upsampler_weight_init = (\<lambda>idx. 1 + 2 * int (idx ! 2) + int (idx ! 3)),
      upsampler_bias_init = (\<lambda>idx. 0),
      conv_content = (\<lambda>k x idx. 0),
      norm_content = (\<lambda>k x idx. 0),
      gelu = (\<lambda>v. v)\<rparr>"

text \<open>
  A configuration with LoRA and convolutional fusion whose sizes agree with \<open>ext0\<close>,
  and variants of it: the cross-attention fusion; LoRA and no fusion; no LoRA and no fusion
  (the defaults of
  \<^verbatim>\<open>model_lora_rank\<close>, \<^verbatim>\<open>conv_fuse\<close> and \<^verbatim>\<open>swin_ca_fuse\<close>); a high resolution that
  is not twice the low one; an encoder feature size that is not the encoder's.
\<close>

definition cfg0 :: config where
  "cfg0 =
     \<lparr>arg_camera_embed_dim = 3, arg_rendering_samples_per_ray = 1, arg_transformer_dim = 1,
      arg_transformer_layers = 1, arg_transformer_heads = 1, arg_triplane_low_res = 1,
      arg_triplane_high_res = 2, arg_triplane_dim = 1, arg_encoder_freeze = True,
      arg_encoder_type = ''dino'', arg_encoder_model_name = ''facebook/dino-vitb16'',
      arg_encoder_feat_dim = 2, arg_model_lora_rank = 1, arg_conv_fuse = True,
      arg_swin_ca_fuse = False, arg_ca_dim = 32, arg_ca_depth = 2, arg_ca_num_heads = 8,
      arg_ca_window_size = 2\<rparr>"

definition cfg_swin :: config where
  "cfg_swin = cfg0\<lparr>arg_conv_fuse := False, arg_swin_ca_fuse := True\<rparr>"

definition cfg_none :: config where
  "cfg_none = cfg0\<lparr>arg_conv_fuse := False\<rparr>"

definition cfg_plain :: config where
  "cfg_plain = cfg0\<lparr>arg_model_lora_rank := 0, arg_conv_fuse := False\<rparr>"

definition cfg_res :: config where
  "cfg_res = cfg0\<lparr>arg_triplane_high_res := 4\<rparr>"

definition cfg_feat :: config where
  "cfg_feat = cfg0\<lparr>arg_encoder_feat_dim := 5\<rparr>"

definition M0 :: "int model" where
  "M0 = projr (init ext0 cfg0)"

definition M_swin :: "int model" where
  "M_swin = projr (init ext0 cfg_swin)"

definition M_plain :: "int model" where
  "M_plain = projr (init ext0 cfg_plain)"

definition M_res :: "int model" where
  "M_res = projr (init ext0 cfg_res)"

definition M_feat :: "int model" where
  "M_feat = projr (init ext0 cfg_feat)"

text \<open>A model whose camera embedder was built for another embedding size than its attribute.\<close>

definition M_cam :: "int model" where
  "M_cam = M0\<lparr>camera_embedder := CameraEmbedder ext0 16 4\<rparr>"

text \<open>Images, cameras and render requests of batch size \<open>n\<close>, filled with zeros.\<close>

definition image0 :: "nat \<Rightarrow> int tensor" where
  "image0 n = tabulate [n, 3, 2, 2] (\<lambda>idx. 0)"

definition camera0 :: "nat \<Rightarrow> int tensor" where
  "camera0 n = tabulate [n, 16] (\<lambda>idx. 0)"

definition render_cameras0 :: "nat \<Rightarrow> int tensor" where
  "render_cameras0 n = tabulate [n, 1, 25] (\<lambda>idx. 0)"

definition render_anchors0 :: "nat \<Rightarrow> int tensor" where
  "render_anchors0 n = tabulate [n, 1, 2] (\<lambda>idx. 0)"

definition render_resolutions0 :: "nat \<Rightarrow> int tensor" where
  "render_resolutions0 n = tabulate [n, 1, 1] (\<lambda>idx. 0)"

definition render_bg_colors0 :: "nat \<Rightarrow> int tensor" where
  "render_bg_colors0 n = tabulate [n, 1, 1] (\<lambda>idx. 0)"

text \<open>Decoder tokens of two batch elements, one token per plane, one feature.\<close>

definition tokens0 :: "int tensor" where
  "tokens0 = \<lparr>shape = [2, 3, 1], data = [1, 2, 3, 4, 5, 6]\<rparr>"

section \<open>Facts about tensors\<close>

lemma offset_less: "in_range s idx \<Longrightarrow> offset s idx < prod_list s"
proof (induction s idx rule: in_range.induct)
  case (2 d s i idx)
  then have "i < d" and "offset s idx < prod_list s" by simp_all
  then have "i * prod_list s + offset s idx < Suc i * prod_list s" by simp
  also have "\<dots> \<le> d * prod_list s" using \<open>i < d\<close> by (simp only: mult_le_mono1 Suc_leI)
  finally show ?case by simp
qed simp_all

lemma index_of_offset: "in_range s idx \<Longrightarrow> index_of s (offset s idx) = idx"
proof (induction s idx rule: in_range.induct)
  case (2 d s i idx)
  then have lt: "offset s idx < prod_list s" by (simp add: offset_less)
  then show ?case using 2 by simp
qed simp_all

lemma in_range_index_of: "k < prod_list s \<Longrightarrow> in_range s (index_of s k)"
proof (induction s arbitrary: k)
  case (Cons d s)
  then have pos: "0 < prod_list s" by (cases "prod_list s = 0") simp_all
  have "k div prod_list s < d" using Cons.prems pos
    by (simp add: less_mult_imp_div_less mult.commute)
  then show ?case using Cons.IH pos by simp
qed simp

lemma offset_index_of: "k < prod_list s \<Longrightarrow> offset s (index_of s k) = k"
proof (induction s arbitrary: k)
  case (Cons d s)
  then have pos: "0 < prod_list s" by (cases "prod_list s = 0") simp_all
  then show ?case using Cons.IH [of "k mod prod_list s"] by simp
qed simp

lemma shape_tabulate [simp]: "shape (tabulate s f) = s"
  by (simp add: tabulate_def)

lemma wf_tabulate [simp]: "wf (tabulate s f)"
  by (simp add: tabulate_def wf_def)

lemma at_tabulate: "in_range s idx \<Longrightarrow> at (tabulate s f) idx = f idx"
  by (simp add: at_def tabulate_def offset_less index_of_offset)

lemma bindE_Inr [simp]: "bindE (Inr v) f = f v"
  by (simp add: bindE_def)

lemma bindE_Inl [simp]: "bindE (Inl e) f = Inl e"
  by (simp add: bindE_def)

lemma select1_eq:
  "shape t = [N, P, D, H, W] \<Longrightarrow> k < P \<Longrightarrow>
   select1 t k = Inr (tabulate [N, D, H, W] (\<lambda>idx. at t (hd idx # k # tl idx)))"
  by (simp add: select1_def)

lemma assign1_eq:
  "shape t = [N, P, D, H, W] \<Longrightarrow> k < P \<Longrightarrow> shape src = [N, D, H, W] \<Longrightarrow>
   assign1 t k src = Inr (tabulate [N, P, D, H, W]
      (\<lambda>idx. if idx ! 1 = k then at src (hd idx # drop 2 idx) else at t idx))"
  by (simp add: assign1_def)

lemma flip_eq:
  "shape u = [N, D, H, W] \<Longrightarrow> dims = [-2, -1] \<or> dims = [-1] \<or> dims = [-2] \<Longrightarrow>
   flip u dims = Inr (tabulate [N, D, H, W] (\<lambda>idx. at u (flip_index (map (\<lambda>d. nat (4 + d)) dims) 0 [N, D, H, W] idx)))"
  by (auto simp add: flip_def norm_dim_def)

lemma plane_step:
  assumes "shape t = [N, P, D, H, W]" "k < P" "dims = [-2, -1] \<or> dims = [-1] \<or> dims = [-2]"
  shows "\<exists>t'. bindE (select1 t k) (\<lambda>s. bindE (flip s dims) (\<lambda>f. bindE (assign1 t k f) g)) = g t'
     \<and> shape t' = [N, P, D, H, W] \<and> wf t'
     \<and> (\<forall>n p d h w. n < N \<and> p < P \<and> d < D \<and> h < H \<and> w < W \<longrightarrow>
          at t' [n, p, d, h, w] =
            (if p = k then at t [n, k, d, if -2 \<in> set dims then H - 1 - h else h,
                                         if -1 \<in> set dims then W - 1 - w else w]
             else at t [n, p, d, h, w]))"
  using assms
  by (auto simp add: select1_eq flip_eq assign1_eq at_tabulate)

lemma bindE_return: "bindE r Inr = r"
  by (cases r) simp_all

lemma spec_mirror_cases:
  "spec_mirror H W (0, h, w) = (0, H - 1 - h, W - 1 - w)"
  "spec_mirror H W (Suc 0, h, w) = (Suc 0, h, W - 1 - w)"
  "spec_mirror H W (2, h, w) = (2, H - 1 - h, w)"
  by (simp_all add: spec_mirror_def)

lemma less_3_cases: "p < (3::nat) \<Longrightarrow> p = 0 \<or> p = Suc 0 \<or> p = 2"
  by arith

lemma flip_back_planes_reads:
  assumes sh: "shape t = [N, 3, D, H, W]"
  shows "\<exists>t'. flip_back_planes t = Inr t' \<and> shape t' = [N, 3, D, H, W] \<and> wf t' \<and>
     (\<forall>n p d h w. n < N \<and> p < 3 \<and> d < D \<and> h < H \<and> w < W \<longrightarrow>
        at t' [n, p, d, h, w] =
          (case spec_mirror H W (p, h, w) of (p', h', w') \<Rightarrow> at t [n, p', d, h', w']))"
proof -
  have three: "(0::nat) < 3" "(1::nat) < 3" "(2::nat) < 3" by simp_all
  let ?rest1 = "\<lambda>b1. bindE (select1 b1 1) (\<lambda>xz. bindE (flip xz [-1]) (\<lambda>xz'.
       bindE (assign1 b1 1 xz') (\<lambda>b2. bindE (select1 b2 2) (\<lambda>yz.
       bindE (flip yz [-2]) (\<lambda>yz'. bindE (assign1 b2 2 yz') Inr)))))"
  let ?rest2 = "\<lambda>b2. bindE (select1 b2 2) (\<lambda>yz.
       bindE (flip yz [-2]) (\<lambda>yz'. bindE (assign1 b2 2 yz') Inr))"
  have unfold: "flip_back_planes t =
      bindE (select1 t 0) (\<lambda>s. bindE (flip s [-2, -1]) (\<lambda>f. bindE (assign1 t 0 f) ?rest1))"
    by (simp add: flip_back_planes_def bindE_return)
  from plane_step [OF sh three(1), of "[-2, -1]" ?rest1]
  obtain b1 where b1: "flip_back_planes t = ?rest1 b1" "shape b1 = [N, 3, D, H, W]"
    and r1: "\<And>n p d h w. n < N \<Longrightarrow> p < 3 \<Longrightarrow> d < D \<Longrightarrow> h < H \<Longrightarrow> w < W \<Longrightarrow>
       at b1 [n, p, d, h, w] =
         (if p = 0 then at t [n, 0, d, H - 1 - h, W - 1 - w] else at t [n, p, d, h, w])"
    unfolding unfold by auto
  from plane_step [OF b1(2) three(2), of "[-1]" ?rest2]
  obtain b2 where b2: "?rest1 b1 = ?rest2 b2" "shape b2 = [N, 3, D, H, W]"
    and r2: "\<And>n p d h w. n < N \<Longrightarrow> p < 3 \<Longrightarrow> d < D \<Longrightarrow> h < H \<Longrightarrow> w < W \<Longrightarrow>
       at b2 [n, p, d, h, w] =
         (if p = 1 then at b1 [n, 1, d, h, W - 1 - w] else at b1 [n, p, d, h, w])"
    by auto
  from plane_step [OF b2(2) three(3), of "[-2]" Inr]
  obtain b3 where b3: "?rest2 b2 = Inr b3" "shape b3 = [N, 3, D, H, W]" "wf b3"
    and r3: "\<And>n p d h w. n < N \<Longrightarrow> p < 3 \<Longrightarrow> d < D \<Longrightarrow> h < H \<Longrightarrow> w < W \<Longrightarrow>
       at b3 [n, p, d, h, w] =
         (if p = 2 then at b2 [n, 2, d, H - 1 - h, w] else at b2 [n, p, d, h, w])"
    by auto
  have "at b3 [n, p, d, h, w] =
          (case spec_mirror H W (p, h, w) of (p', h', w') \<Rightarrow> at t [n, p', d, h', w'])"
    if "n < N" "p < 3" "d < D" "h < H" "w < W" for n p d h w
  proof -
    have hw: "H - 1 - h < H" "W - 1 - w < W" using that by arith+
    from less_3_cases [OF that(2)] show ?thesis
    proof (elim disjE)
      assume "p = 0"
      then show ?thesis using that hw by (simp add: r3 r2 r1 spec_mirror_cases)
    next
      assume "p = Suc 0"
      then show ?thesis using that hw by (simp add: r3 r2 r1 spec_mirror_cases)
    next
      assume "p = 2"
      then show ?thesis using that hw by (simp add: r3 r2 r1 spec_mirror_cases)
    qed
  qed
  then show ?thesis using b1 b2 b3 by simp
qed

lemma in_range_Cons_iff:
  "in_range (d # s) idx \<longleftrightarrow> (\<exists>i r. idx = i # r \<and> i < d \<and> in_range s r)"
  by (cases idx) simp_all

lemma in_range_Nil_iff: "in_range [] idx \<longleftrightarrow> idx = []"
  by (cases idx) simp_all

lemma spec_mirror_plane: "fst (spec_mirror H W (p, h, w)) = p"
  by (simp add: spec_mirror_def)

lemma spec_mirror_involution:
  "h < H \<Longrightarrow> w < W \<Longrightarrow> spec_mirror H W (spec_mirror H W (p, h, w)) = (p, h, w)"
  by (simp add: spec_mirror_def)

lemma spec_mirror_in_range:
  "h < H \<Longrightarrow> w < W \<Longrightarrow> spec_mirror H W (p, h, w) = (p', h', w') \<Longrightarrow>
   p' = p \<and> h' < H \<and> w' < W"
  by (auto simp add: spec_mirror_def split: if_splits)

section \<open>The correction of the back planes\<close>



lemma T0_alone: "in_range [1, 3, 1, 2, 2] idx \<and> idx \<noteq> [0, 1, 0, 0, 0] \<longrightarrow> at T0 idx \<noteq> 4"
proof
  assume a: "in_range [1, 3, 1, 2, 2] idx \<and> idx \<noteq> [0, 1, 0, 0, 0]"
  then have "in_range [1, 3, 1, 2, 2] idx" by simp
  then obtain n p d h w where
    e: "idx = [n, p, d, h, w]" and c: "n < 1" "p < 3" "d < 1" "h < 2" "w < 2"
    by (auto simp add: in_range_Cons_iff in_range_Nil_iff)
  have "p = 0 \<or> p = 1 \<or> p = 2" "h = 0 \<or> h = 1" "w = 0 \<or> w = 1" using c by arith+
  then show "at T0 idx \<noteq> 4" using a e c
    by (auto simp add: at_def T0_def)
qed



section \<open>Reshaping and upsampling\<close>

lemma bindT_liftE_Inr [simp]: "bindT (liftE (Inr v)) f = f v"
  by (simp add: bindT_def liftE_def split: prod.splits)

lemma bindT_liftE_Inl [simp]: "bindT (liftE (Inl e)) f = ([], Inl e)"
  by (simp add: bindT_def liftE_def)

lemma bindT_invoke_Inr [simp]:
  "bindT (invoke k args (Inr v)) f = ((k, args) # fst (f v), snd (f v))"
  by (simp add: bindT_def invoke_def split: prod.splits)

lemma bindT_invoke_Inl [simp]: "bindT (invoke k args (Inl e)) f = ([(k, args)], Inl e)"
  by (simp add: bindT_def invoke_def)

lemma fst_liftE [simp]: "fst (liftE r) = []"
  by (simp add: liftE_def)

lemma snd_liftE [simp]: "snd (liftE r) = r"
  by (simp add: liftE_def)

lemma at_reshaped:
  "offset s' idx' = offset (shape t) idx \<Longrightarrow> at (t\<lparr>shape := s'\<rparr>) idx' = at t idx"
  by (simp add: at_def)

lemma wf_reshaped: "wf t \<Longrightarrow> prod_list s' = prod_list (shape t) \<Longrightarrow> wf (t\<lparr>shape := s'\<rparr>)"
  by (simp add: wf_def)

lemma view_one_hole:
  assumes "length (filter (\<lambda>d. d = None) sz) = 1"
    and "prod_list (map (\<lambda>d. case d of None \<Rightarrow> 1 | Some k \<Rightarrow> k) sz) = k" "0 < k"
    and "prod_list (shape t) = k * q"
  shows "view sz t = Inr (t\<lparr>shape := map (\<lambda>d. case d of None \<Rightarrow> q | Some k \<Rightarrow> k) sz\<rparr>)"
  using assms by (simp add: view_def infer_shape_def Let_def)

lemma view_no_hole:
  assumes "prod_list s = prod_list (shape t)"
  shows "view (map Some s) t = Inr (t\<lparr>shape := s\<rparr>)"
proof -
  have "filter (\<lambda>d. d = None) (map Some s) = []" by (induction s) simp_all
  moreover have "map ((\<lambda>d. case d of None \<Rightarrow> 0 | Some k \<Rightarrow> k) \<circ> Some) s = s" by (induction s) simp_all
  moreover have "map ((\<lambda>d. case d of None \<Rightarrow> 1 | Some k \<Rightarrow> k) \<circ> Some) s = s" by (induction s) simp_all
  ultimately show ?thesis using assms by (simp add: view_def infer_shape_def Let_def)
qed

lemma einsum_to_planes_first:
  assumes "shape x = [N, P, H, W, F]"
  shows "einsum ''nihwd'' ''indhw'' x =
     Inr (tabulate [P, N, F, H, W] (\<lambda>idx. at x [idx ! 1, idx ! 0, idx ! 3, idx ! 4, idx ! 2]))"
  using assms by (simp add: einsum_def permute_def Let_def eval_nat_numeral)

lemma einsum_to_batch_first:
  assumes "shape x = [P, N, D, H, W]"
  shows "einsum ''indhw'' ''nidhw'' x =
     Inr (tabulate [N, P, D, H, W] (\<lambda>idx. at x [idx ! 1, idx ! 0, idx ! 2, idx ! 3, idx ! 4]))"
  using assms by (simp add: einsum_def permute_def Let_def eval_nat_numeral)

lemma conv_transpose2d_eq:
  assumes "shape x = [B, F, H, W]" "shape (param (weight up)) = [F, D', 2, 2]"
  shows "conv_transpose2d up x =
     Inr (tabulate [B, D', 2 * H, 2 * W]
            (\<lambda>idx. at (param (bias up)) [idx ! 1] +
               (\<Sum>ci\<leftarrow>[0..<F]. at x [idx ! 0, ci, idx ! 2 div 2, idx ! 3 div 2] *
                  at (param (weight up)) [ci, idx ! 1, idx ! 2 mod 2, idx ! 3 mod 2])))"
  using assms by (simp add: conv_transpose2d_def)

lemma sum_list_map_cong:
  "(\<And>x. x \<in> set xs \<Longrightarrow> f x = g x) \<Longrightarrow> sum_list (map f xs) = sum_list (map g xs)"
  by (induction xs) simp_all

lemma tokens_to_grids:
  fixes tokens :: "'a tensor"
  assumes sh: "shape tokens = [N, 3 * R\<^sup>2, F]" and pos: "0 < N" "0 < R"
  shows "\<exists>x1 x2 x3.
          view [Some N, Some 3, Some R, Some R, None] tokens = Inr x1 \<and>
          einsum ''nihwd'' ''indhw'' x1 = Inr x2 \<and>
          view [Some (3 * N), None, Some R, Some R] x2 = Inr x3 \<and>
          shape x3 = [3 * N, F, R, R] \<and> wf x3 \<and>
          (\<forall>n i d h w. n < N \<and> i < 3 \<and> d < F \<and> h < R \<and> w < R \<longrightarrow>
             at x3 [i * N + n, d, h, w] = at tokens [n, i * R\<^sup>2 + h * R + w, d])"
proof -
  let ?x1 = "tokens\<lparr>shape := [N, 3, R, R, F]\<rparr>"
  have v1: "view [Some N, Some 3, Some R, Some R, None] tokens = Inr ?x1"
    using view_one_hole [of "[Some N, Some 3, Some R, Some R, None]" "N * 3 * R * R" tokens F]
      sh pos by (simp add: power2_eq_square algebra_simps)
  let ?x2 = "tabulate [3, N, F, R, R]
      (\<lambda>idx. at ?x1 [idx ! 1, idx ! 0, idx ! 3, idx ! 4, idx ! 2])"
  have e1: "einsum ''nihwd'' ''indhw'' ?x1 = Inr ?x2"
    by (rule einsum_to_planes_first) simp
  let ?x3 = "?x2\<lparr>shape := [3 * N, F, R, R]\<rparr>"
  have v2: "view [Some (3 * N), None, Some R, Some R] ?x2 = Inr ?x3"
    using view_one_hole [of "[Some (3 * N), None, Some R, Some R]" "3 * N * R * R" ?x2 F]
      pos by (simp add: algebra_simps)
  have rd: "at ?x3 [i * N + n, d, h, w] = at tokens [n, i * R\<^sup>2 + h * R + w, d]"
    if b: "n < N" "i < 3" "d < F" "h < R" "w < R" for n i d h w
  proof -
    have "at ?x3 [i * N + n, d, h, w] = at ?x2 [i, n, d, h, w]"
      by (rule at_reshaped) (simp add: algebra_simps)
    also have "\<dots> = at ?x1 [n, i, h, w, d]"
      using b by (simp add: at_tabulate)
    also have "\<dots> = at tokens [n, i * R\<^sup>2 + h * R + w, d]"
      by (rule at_reshaped) (simp add: sh power2_eq_square algebra_simps)
    finally show ?thesis .
  qed
  have "wf ?x3" by (simp add: wf_def tabulate_def algebra_simps)
  with v1 e1 v2 rd show ?thesis by simp
qed

lemma batch_index_less: "i < (3::nat) \<Longrightarrow> n < N \<Longrightarrow> i * N + n < 3 * N"
proof -
  assume "i < 3" "n < N"
  then have "i * N + n < Suc i * N" and "Suc i \<le> 3" by simp_all
  moreover from \<open>Suc i \<le> 3\<close> have "Suc i * N \<le> 3 * N" by (rule mult_le_mono1)
  ultimately show ?thesis by linarith
qed

lemma reshape_upsample_run:
  fixes self :: "('a::semiring_0) model"
  assumes sh: "shape tokens = [N, 3 * (triplane_low_res self)\<^sup>2, F]"
    and pos: "0 < N" "0 < triplane_low_res self"
    and shw: "shape (param (weight (upsampler self))) = [F, D', 2, 2]"
  shows "\<exists>x out.
     reshape_upsample self tokens = ([(UpsamplerCall, [x])], Inr out) \<and>
     shape x = [3 * N, F, triplane_low_res self, triplane_low_res self] \<and> wf x \<and>
     (\<forall>n i d h w. n < N \<and> i < 3 \<and> d < F \<and> h < triplane_low_res self \<and> w < triplane_low_res self \<longrightarrow>
        at x [i * N + n, d, h, w] =
          at tokens [n, i * (triplane_low_res self)\<^sup>2 + h * triplane_low_res self + w, d]) \<and>
     shape out = [N, 3, D', 2 * triplane_low_res self, 2 * triplane_low_res self] \<and> wf out \<and>
     (\<forall>n i c y z. n < N \<and> i < 3 \<and> c < D' \<and> y < 2 * triplane_low_res self \<and>
          z < 2 * triplane_low_res self \<longrightarrow>
        at out [n, i, c, y, z] =
          at (param (bias (upsampler self))) [c] +
          (\<Sum>d\<leftarrow>[0..<F].
             at tokens [n, i * (triplane_low_res self)\<^sup>2 + (y div 2) * triplane_low_res self + z div 2, d] *
             at (param (weight (upsampler self))) [d, c, y mod 2, z mod 2]))"
proof -
  let ?R = "triplane_low_res self"
  from tokens_to_grids [OF sh pos(1,2)] obtain x1 x2 x3 where
    v1: "view [Some N, Some 3, Some ?R, Some ?R, None] tokens = Inr x1" and
    e1: "einsum ''nihwd'' ''indhw'' x1 = Inr x2" and
    v2: "view [Some (3 * N), None, Some ?R, Some ?R] x2 = Inr x3" and
    s3: "shape x3 = [3 * N, F, ?R, ?R]" and w3: "wf x3" and
    r3: "\<And>n i d h w. n < N \<Longrightarrow> i < 3 \<Longrightarrow> d < F \<Longrightarrow> h < ?R \<Longrightarrow> w < ?R \<Longrightarrow>
       at x3 [i * N + n, d, h, w] = at tokens [n, i * ?R\<^sup>2 + h * ?R + w, d]"
    by blast
  define x4 where "x4 = tabulate [3 * N, D', 2 * ?R, 2 * ?R]
      (\<lambda>idx. at (param (bias (upsampler self))) [idx ! 1] +
         (\<Sum>ci\<leftarrow>[0..<F]. at x3 [idx ! 0, ci, idx ! 2 div 2, idx ! 3 div 2] *
            at (param (weight (upsampler self))) [ci, idx ! 1, idx ! 2 mod 2, idx ! 3 mod 2]))"
  have up: "conv_transpose2d (upsampler self) x3 = Inr x4"
    unfolding x4_def by (rule conv_transpose2d_eq [OF s3 shw])
  have s4: "shape x4 = [3 * N, D', 2 * ?R, 2 * ?R]" by (simp add: x4_def)
  have r4: "at x4 [b, c, y, z] = at (param (bias (upsampler self))) [c] +
        (\<Sum>ci\<leftarrow>[0..<F]. at x3 [b, ci, y div 2, z div 2] *
            at (param (weight (upsampler self))) [ci, c, y mod 2, z mod 2])"
    if "b < 3 * N" "c < D'" "y < 2 * ?R" "z < 2 * ?R" for b c y z
    using that by (simp add: x4_def at_tabulate)
  define x5 where "x5 = x4\<lparr>shape := [3, N, D', 2 * ?R, 2 * ?R]\<rparr>"
  have v3: "view [Some 3, Some N, Some D', Some (2 * ?R), Some (2 * ?R)] x4 = Inr x5"
    unfolding x5_def using view_no_hole [of "[3, N, D', 2 * ?R, 2 * ?R]" x4] by (simp add: s4)
  have s5: "shape x5 = [3, N, D', 2 * ?R, 2 * ?R]" by (simp add: x5_def)
  define out where "out = tabulate [N, 3, D', 2 * ?R, 2 * ?R]
      (\<lambda>idx. at x5 [idx ! 1, idx ! 0, idx ! 2, idx ! 3, idx ! 4])"
  have e2: "einsum ''indhw'' ''nidhw'' x5 = Inr out"
    unfolding out_def by (rule einsum_to_batch_first [OF s5])
  have run: "reshape_upsample self tokens = ([(UpsamplerCall, [x3])], Inr out)"
    unfolding reshape_upsample_def Let_def
    by (simp add: size_at_def sh v1 e1 v2 up s4 v3 e2)
  have rd: "at out [n, i, c, y, z] =
      at (param (bias (upsampler self))) [c] +
      (\<Sum>d\<leftarrow>[0..<F]. at tokens [n, i * ?R\<^sup>2 + (y div 2) * ?R + z div 2, d] *
         at (param (weight (upsampler self))) [d, c, y mod 2, z mod 2])"
    if b: "n < N" "i < 3" "c < D'" "y < 2 * ?R" "z < 2 * ?R" for n i c y z
  proof -
    have lt: "i * N + n < 3 * N" using b by (simp add: batch_index_less)
    have half: "y div 2 < ?R" "z div 2 < ?R" using b by simp_all
    have "at out [n, i, c, y, z] = at x5 [i, n, c, y, z]"
      using b by (simp add: out_def at_tabulate)
    also have "\<dots> = at x4 [i * N + n, c, y, z]"
      unfolding x5_def by (rule at_reshaped) (simp add: s4 algebra_simps)
    also have "\<dots> = at (param (bias (upsampler self))) [c] +
        (\<Sum>ci\<leftarrow>[0..<F]. at x3 [i * N + n, ci, y div 2, z div 2] *
            at (param (weight (upsampler self))) [ci, c, y mod 2, z mod 2])"
      using b lt by (simp add: r4)
    also have "(\<Sum>ci\<leftarrow>[0..<F]. at x3 [i * N + n, ci, y div 2, z div 2] *
            at (param (weight (upsampler self))) [ci, c, y mod 2, z mod 2]) =
        (\<Sum>d\<leftarrow>[0..<F]. at tokens [n, i * ?R\<^sup>2 + (y div 2) * ?R + z div 2, d] *
            at (param (weight (upsampler self))) [d, c, y mod 2, z mod 2])"
      by (rule sum_list_map_cong) (simp add: r3 b half)
    finally show ?thesis .
  qed
  have "wf out" "shape out = [N, 3, D', 2 * ?R, 2 * ?R]" by (simp_all add: out_def)
  with run s3 w3 r3 rd show ?thesis by (intro exI [of _ x3] exI [of _ out]) simp
qed

text \<open>
  C3. \<^verbatim>\<open>reshape_upsample\<close> on decoder tokens of shape \<open>[N, 3 * low_res\<^sup>2, F]\<close> calls the
  upsampler once, on a tensor of shape \<open>[3 * N, F, low_res, low_res]\<close> whose batch entry
  \<open>i * N + n\<close> is the grid of the tokens of plane \<open>i\<close> of batch element \<open>n\<close> (token
  \<open>i * low_res\<^sup>2 + h * low_res + w\<close> at row \<open>h\<close>, column \<open>w\<close>), so the one upsampler
  transforms the three grids stacked along the batch axis. The result has the shape
  \<open>[N, 3, D', 2 * low_res, 2 * low_res]\<close>, and its plane \<open>i\<close> of batch element \<open>n\<close> is
  the transposed convolution of exactly the tokens of plane \<open>i\<close> of batch element \<open>n\<close>.
\<close>

theorem reshape_upsample_axes:
  fixes self :: "('a::semiring_0) model"
  assumes wft: "wf tokens" and sh: "shape tokens = [N, 3 * (triplane_low_res self)\<^sup>2, F]"
    and pos: "0 < N" "0 < triplane_low_res self" "0 < F" "0 < D'"
    and shw: "shape (param (weight (upsampler self))) = [F, D', 2, 2]"
  shows "\<exists>x out.
     reshape_upsample self tokens = ([(UpsamplerCall, [x])], Inr out) \<and>
     shape x = [3 * N, F, triplane_low_res self, triplane_low_res self] \<and> wf x \<and>
     (\<forall>n i d h w. n < N \<and> i < 3 \<and> d < F \<and> h < triplane_low_res self \<and> w < triplane_low_res self \<longrightarrow>
        at x [i * N + n, d, h, w] =
          at tokens [n, i * (triplane_low_res self)\<^sup>2 + h * triplane_low_res self + w, d]) \<and>
     shape out = [N, 3, D', 2 * triplane_low_res self, 2 * triplane_low_res self] \<and> wf out \<and>
     (\<forall>n i c y z. n < N \<and> i < 3 \<and> c < D' \<and> y < 2 * triplane_low_res self \<and>
          z < 2 * triplane_low_res self \<longrightarrow>
        at out [n, i, c, y, z] =
          at (param (bias (upsampler self))) [c] +
          (\<Sum>d\<leftarrow>[0..<F].
             at tokens [n, i * (triplane_low_res self)\<^sup>2 + (y div 2) * triplane_low_res self + z div 2, d] *
             at (param (weight (upsampler self))) [d, c, y mod 2, z mod 2]))"
  using reshape_upsample_run [OF sh pos(1,2) shw] .

lemma encoder_fn_dino: "encoder_fn ''dino'' = Inr (Some DinoWrapperClass)"
  by (simp add: encoder_fn_def lower_def lower_char_def assert_def Let_def)

lemma init_cfg0: "init ext0 cfg0 = Inr M0"
  by (simp add: M0_def init_def cfg0_def encoder_fn_dino freeze_modules_def Let_def)

lemma M0_low_res: "triplane_low_res M0 = 1"
  by (simp add: M0_def init_def cfg0_def encoder_fn_dino freeze_modules_def Let_def)

lemma M0_weight: "param (weight (upsampler M0)) = tabulate [1, 1, 2, 2] (upsampler_weight_init ext0)"
  by (simp add: M0_def init_def cfg0_def encoder_fn_dino freeze_modules_def Let_def)

lemma M0_bias: "param (bias (upsampler M0)) = tabulate [1] (upsampler_bias_init ext0)"
  by (simp add: M0_def init_def cfg0_def encoder_fn_dino freeze_modules_def Let_def)

theorem reshape_upsample_axes_witness:
  "wf tokens0 \<and> shape tokens0 = [2, 3 * (triplane_low_res M0)\<^sup>2, 1] \<and>
   shape (param (weight (upsampler M0))) = [1, 1, 2, 2] \<and>
   (\<exists>x out. reshape_upsample M0 tokens0 = ([(UpsamplerCall, [x])], Inr out) \<and>
      shape x = [6, 1, 1, 1] \<and> at x [2 * 2 + 1, 0, 0, 0] = 6 \<and>
      shape out = [2, 3, 1, 2, 2] \<and> at out [1, 2, 0, 1, 1] = 24)"
proof -
  have w: "wf tokens0" by (simp add: wf_def tokens0_def)
  have sh: "shape tokens0 = [2, 3 * (triplane_low_res M0)\<^sup>2, 1]"
    by (simp add: tokens0_def M0_low_res)
  have shw: "shape (param (weight (upsampler M0))) = [1, 1, 2, 2]"
    by (simp add: M0_weight)
  have tok: "at tokens0 [Suc 0, 2, 0] = 6" by (simp add: at_def tokens0_def)
  have wt: "at (param (weight (upsampler M0))) [0, 0, Suc 0, Suc 0] = 4"
    by (simp add: M0_weight at_tabulate ext0_def)
  have bs: "at (param (bias (upsampler M0))) [0] = 0"
    by (simp add: M0_bias at_tabulate ext0_def)
  from reshape_upsample_axes [OF w sh _ _ _ _ shw]
  obtain x out where
    run: "reshape_upsample M0 tokens0 = ([(UpsamplerCall, [x])], Inr out)" and
    sx: "shape x = [3 * 2, 1, triplane_low_res M0, triplane_low_res M0]" and
    rx: "\<And>n i d h w. n < 2 \<and> i < 3 \<and> d < 1 \<and> h < triplane_low_res M0 \<and> w < triplane_low_res M0 \<Longrightarrow>
        at x [i * 2 + n, d, h, w] =
          at tokens0 [n, i * (triplane_low_res M0)\<^sup>2 + h * triplane_low_res M0 + w, d]" and
    so: "shape out = [2, 3, 1, 2 * triplane_low_res M0, 2 * triplane_low_res M0]" and
    ro: "\<And>n i c y z. n < 2 \<and> i < 3 \<and> c < 1 \<and> y < 2 * triplane_low_res M0 \<and>
          z < 2 * triplane_low_res M0 \<Longrightarrow>
        at out [n, i, c, y, z] =
          at (param (bias (upsampler M0))) [c] +
          (\<Sum>d\<leftarrow>[0..<1].
             at tokens0 [n, i * (triplane_low_res M0)\<^sup>2 + (y div 2) * triplane_low_res M0 + z div 2, d] *
             at (param (weight (upsampler M0))) [d, c, y mod 2, z mod 2])"
    by (auto simp add: M0_low_res)
  from rx [of 1 2 0 0 0] have "at x [2 * 2 + 1, 0, 0, 0] = 6"
    by (simp add: M0_low_res tok)
  moreover from ro [of 1 2 0 1 1] have "at out [1, 2, 0, 1, 1] = 24"
    by (simp add: M0_low_res tok wt bs)
  ultimately show ?thesis using w sh shw run sx so by (simp add: M0_low_res)
qed


section \<open>Construction and freezing\<close>

lemma freeze_modules_pos_False:
  "snd (freeze_modules self enc cam False tr up syn) = None"
  by (simp add: freeze_modules_def Let_def)

lemma freeze_modules_keeps_flags:
  "conv_fuse (fst (freeze_modules self enc cam pos tr up syn)) = conv_fuse self"
  "swin_ca_fuse (fst (freeze_modules self enc cam pos tr up syn)) = swin_ca_fuse self"
  "front_back_conv (fst (freeze_modules self enc cam pos tr up syn)) = front_back_conv self"
  "swin_cross_attention (fst (freeze_modules self enc cam pos tr up syn)) = swin_cross_attention self"
  "pos_embed (fst (freeze_modules self enc cam pos tr up syn)) = pos_embed self"
  by (simp_all add: freeze_modules_def Let_def)

lemma freeze_case:
  "(case freeze_modules self enc cam False tr up syn of
      (self', None) \<Rightarrow> Inr self' | (self', Some e) \<Rightarrow> Inl e) =
   Inr (fst (freeze_modules self enc cam False tr up syn))"
  using freeze_modules_pos_False [of self enc cam tr up syn]
  by (cases "freeze_modules self enc cam False tr up syn") simp

text \<open>
  C9. \<^verbatim>\<open>freeze_modules\<close> called with \<^verbatim>\<open>pos_embed=True\<close> raises \<^verbatim>\<open>AttributeError\<close>,
  whatever the other flags are; no call of \<^verbatim>\<open>freeze_modules\<close> changes the positional
  grid or its \<^verbatim>\<open>requires_grad\<close>; with \<^verbatim>\<open>pos_embed=False\<close> it raises nothing; and
  \<^verbatim>\<open>__init__\<close>, whose two calls pass \<^verbatim>\<open>pos_embed=False\<close>, never ends with that error.
\<close>

theorem freeze_modules_pos_embed:
  "(\<exists>self'. freeze_modules self enc cam True tr up syn =
       (self', Some (AttributeError ''Parameter object has no attribute parameters''))) \<and>
   pos_embed (fst (freeze_modules self enc cam pos tr up syn)) = pos_embed self \<and>
   snd (freeze_modules self enc cam False tr up syn) = None \<and>
   init ext c \<noteq> Inl (AttributeError msg)"
proof (intro conjI)
  show "\<exists>self'. freeze_modules self enc cam True tr up syn =
       (self', Some (AttributeError ''Parameter object has no attribute parameters''))"
    by (simp add: freeze_modules_def Let_def)
  show "pos_embed (fst (freeze_modules self enc cam pos tr up syn)) = pos_embed self"
    by (rule freeze_modules_keeps_flags)
  show "snd (freeze_modules self enc cam False tr up syn) = None"
    by (rule freeze_modules_pos_False)
  show "init ext c \<noteq> Inl (AttributeError msg)"
    unfolding init_def Let_def freeze_case
    by (auto simp add: bindE_def encoder_fn_def assert_def Let_def
        split: sum.splits option.splits encoder_class.splits if_splits)
qed


lemma init_cfg_none:
  "init ext0 cfg_none = Inl (ValueError ''You need to specify a method for fusing the front and the back.'')"
  by (simp add: init_def cfg_none_def cfg0_def encoder_fn_dino Let_def)

lemma M0_fusion: "conv_fuse M0" "front_back_conv M0 \<noteq> None"
  by (simp_all add: M0_def init_def cfg0_def encoder_fn_dino freeze_modules_def Let_def)


lemma init_cfg_plain: "init ext0 cfg_plain = Inr M_plain"
  by (simp add: M_plain_def init_def cfg_plain_def cfg0_def encoder_fn_dino Let_def)

lemma forward_M_plain_back:
  "snd (forward M_plain (image0 1) (camera0 1) (render_cameras0 1) (render_anchors0 1)
          (render_resolutions0 1) (render_bg_colors0 1) 1 (Some (image0 1))) =
     Inl (UnboundLocalError ''planes'')"
  by code_simp


section \<open>Validation in forward\<close>

lemma validate_ok:
  assumes "shape img = N # si" "shape source_camera = N # sc" "shape render_cameras = N # sr"
    "shape render_anchors = N # sa" "shape render_bg_colors = N # sb"
  shows "validate img source_camera render_cameras render_anchors render_bg_colors = Inr ()"
  using assms by (simp add: validate_def size_at_def assert_def)

text \<open>
  C4. When the batch size of the image differs from that of the source camera, of the render
  cameras, of the render anchors or of the render background colours, \<^verbatim>\<open>forward\<close> ends
  with an \<^verbatim>\<open>AssertionError\<close> and has called no submodule: no encoder, decoder,
  fusion layer or renderer.
\<close>

theorem forward_batch_mismatch:
  fixes self :: "('a::semiring_0) model"
  assumes "shape img = N # si" "shape source_camera = Nc # sc" "shape render_cameras = Nr # sr"
    "shape render_anchors = Na # sa" "shape render_bg_colors = Nb # sb"
    and "N \<noteq> Nc \<or> N \<noteq> Nr \<or> N \<noteq> Na \<or> N \<noteq> Nb"
  shows "\<exists>msg. forward self img source_camera render_cameras render_anchors render_resolutions
            render_bg_colors render_region_size image_back = ([], Inl (AssertionError msg))"
proof -
  from assms have "\<exists>msg. validate img source_camera render_cameras render_anchors render_bg_colors
      = Inl (AssertionError msg)"
    by (auto simp add: validate_def size_at_def assert_def)
  then show ?thesis by (auto simp add: forward_def)
qed

theorem forward_batch_mismatch_witness:
  "shape (image0 4) = 4 # [3, 2, 2] \<and> shape (camera0 3) = 3 # [16] \<and>
   shape (render_cameras0 4) = 4 # [1, 25] \<and> shape (render_anchors0 4) = 4 # [1, 2] \<and>
   shape (render_bg_colors0 4) = 4 # [1, 1] \<and> (4::nat) \<noteq> 3 \<and>
   (\<exists>msg. forward M0 (image0 4) (camera0 3) (render_cameras0 4) (render_anchors0 4)
            (render_resolutions0 4) (render_bg_colors0 4) 1 None = ([], Inl (AssertionError msg)))"
proof -
  have s: "shape (image0 4) = 4 # [3, 2, 2]" "shape (camera0 3) = 3 # [16]"
    "shape (render_cameras0 4) = 4 # [1, 25]" "shape (render_anchors0 4) = 4 # [1, 2]"
    "shape (render_bg_colors0 4) = 4 # [1, 1]"
    by (simp_all add: image0_def camera0_def render_cameras0_def render_anchors0_def
        render_bg_colors0_def)
  have d: "(4::nat) \<noteq> 3 \<or> (4::nat) \<noteq> 4 \<or> (4::nat) \<noteq> 4 \<or> (4::nat) \<noteq> 4" by simp
  from forward_batch_mismatch [OF s d, of M0 "render_resolutions0 4" 1 None] s
  show ?thesis by simp
qed

text \<open>
  C10. The assertions of \<^verbatim>\<open>forward\<close> do not read \<^verbatim>\<open>render_resolutions\<close>. When the
  other inputs share the batch size \<open>N\<close> and the planes are produced, the run reaches the
  renderer and passes it \<^verbatim>\<open>render_resolutions\<close> as given, also when its batch size is
  not \<open>N\<close> (or it has no batch axis at all).
\<close>

theorem render_resolutions_unchecked:
  fixes self :: "('a::semiring_0) model"
  assumes "shape img = N # si" "shape source_camera = N # sc" "shape render_cameras = N # M # sr"
    "shape render_anchors = N # sa" "shape render_bg_colors = N # sb"
    and planes: "dispatch_planes self img source_camera image_back = (l, Inr (Some planes))"
    and differs: "size_at render_resolutions 0 \<noteq> Inr N"
  shows "validate img source_camera render_cameras render_anchors render_bg_colors = Inr () \<and>
     (\<exists>r. forward self img source_camera render_cameras render_anchors render_resolutions
            render_bg_colors render_region_size image_back =
          (l @ [(SynthesizerCall, [planes, render_cameras, render_anchors, render_resolutions,
                               render_bg_colors])], r))"
proof -
  have v: "validate img source_camera render_cameras render_anchors render_bg_colors = Inr ()"
    using assms(1-5) by (rule validate_ok)
  show ?thesis
    unfolding forward_def
    by (cases "call (synthesizer self) (planes, render_cameras, render_anchors,
          render_resolutions, render_bg_colors, render_region_size)")
      (simp_all add: v assms(3) planes bindT_def liftE_def invoke_def split: prod.splits sum.splits)
qed


lemma dispatch_M0_single:
  "(case snd (dispatch_planes M0 (image0 2) (camera0 2) None) of
      Inr (Some planes) \<Rightarrow> True | _ \<Rightarrow> False)"
  by code_simp

theorem render_resolutions_unchecked_witness:
  "shape (image0 2) = 2 # [3, 2, 2] \<and> shape (camera0 2) = 2 # [16] \<and>
   shape (render_cameras0 2) = 2 # 1 # [25] \<and> shape (render_anchors0 2) = 2 # [1, 2] \<and>
   shape (render_bg_colors0 2) = 2 # [1, 1] \<and>
   size_at (render_resolutions0 5) 0 \<noteq> Inr 2 \<and>
   (\<exists>l planes r.
      dispatch_planes M0 (image0 2) (camera0 2) None = (l, Inr (Some planes)) \<and>
      forward M0 (image0 2) (camera0 2) (render_cameras0 2) (render_anchors0 2)
        (render_resolutions0 5) (render_bg_colors0 2) 1 None =
      (l @ [(SynthesizerCall, [planes, render_cameras0 2, render_anchors0 2, render_resolutions0 5,
                           render_bg_colors0 2])], r))"
proof -
  have s: "shape (image0 2) = 2 # [3, 2, 2]" "shape (camera0 2) = 2 # [16]"
    "shape (render_cameras0 2) = 2 # 1 # [25]" "shape (render_anchors0 2) = 2 # [1, 2]"
    "shape (render_bg_colors0 2) = 2 # [1, 1]"
    by (simp_all add: image0_def camera0_def render_cameras0_def render_anchors0_def
        render_bg_colors0_def)
  have d: "size_at (render_resolutions0 5) 0 \<noteq> Inr 2"
    by (simp add: size_at_def render_resolutions0_def)
  obtain l planes where p: "dispatch_planes M0 (image0 2) (camera0 2) None = (l, Inr (Some planes))"
    using dispatch_M0_single
    by (cases "dispatch_planes M0 (image0 2) (camera0 2) None")
      (auto split: sum.splits option.splits)
  from render_resolutions_unchecked [OF s p d, of 1] s d p show ?thesis by blast
qed

section \<open>The plane generator\<close>

lemma fst_bindT_prefix: "\<exists>rest. fst (bindT p f) = fst p @ rest"
  by (cases p) (auto simp add: bindT_def split: sum.splits prod.splits)


lemma shape_image0: "shape (image0 n) = [n, 3, 2, 2]"
  by (simp add: image0_def)

lemma shape_camera0: "shape (camera0 n) = [n, 16]"
  by (simp add: camera0_def)

lemma M_feat_encoder:
  "call (encoder M_feat) (image0 2) = Inr (tabulate [2, 1, 2] (\<lambda>idx. 1))"
  "encoder_feat_dim M_feat = 5"
  by (simp_all add: M_feat_def init_def cfg_feat_def cfg0_def encoder_fn_dino freeze_modules_def
      Let_def ext0_def shape_image0)

lemma M0_encoder:
  "call (encoder M0) (image0 2) = Inr (tabulate [2, 1, 2] (\<lambda>idx. 1))"
  "encoder_feat_dim M0 = 2"
  by (simp_all add: M0_def init_def cfg0_def encoder_fn_dino freeze_modules_def
      Let_def ext0_def shape_image0)

lemma M0_camera_embedder:
  "call (camera_embedder M0) (camera0 2) = Inr (tabulate [2, 3] (\<lambda>idx. 0))"
  "camera_embed_dim M0 = 3"
  by (simp_all add: M0_def init_def cfg0_def encoder_fn_dino freeze_modules_def
      Let_def ext0_def shape_camera0)

lemma M_cam_fields:
  "call (encoder M_cam) (image0 2) = Inr (tabulate [2, 1, 2] (\<lambda>idx. 1))"
  "encoder_feat_dim M_cam = 2"
  "call (camera_embedder M_cam) (camera0 2) = Inr (tabulate [2, 4] (\<lambda>idx. 0))"
  "camera_embed_dim M_cam = 3"
  by (simp_all add: M_cam_def M0_encoder M0_camera_embedder ext0_def shape_camera0)


lemma bindT_Inr: "bindT (l, Inr v) f = (l @ fst (f v), snd (f v))"
  by (simp add: bindT_def split: prod.splits)

lemma bindT_Inl: "bindT (l, Inl e) f = (l, Inl e)"
  by (simp add: bindT_def)

lemma freeze_modules_keeps_sizes:
  "encoder_feat_dim (fst (freeze_modules self enc cam pos tr up syn)) = encoder_feat_dim self"
  "camera_embed_dim (fst (freeze_modules self enc cam pos tr up syn)) = camera_embed_dim self"
  "triplane_low_res (fst (freeze_modules self enc cam pos tr up syn)) = triplane_low_res self"
  "triplane_high_res (fst (freeze_modules self enc cam pos tr up syn)) = triplane_high_res self"
  "triplane_dim (fst (freeze_modules self enc cam pos tr up syn)) = triplane_dim self"
  "param (weight (upsampler (fst (freeze_modules self enc cam pos tr up syn)))) =
     param (weight (upsampler self))"
  "param (bias (upsampler (fst (freeze_modules self enc cam pos tr up syn)))) =
     param (bias (upsampler self))"
  by (simp_all add: freeze_modules_def Let_def)

lemma init_fields:
  assumes "init ext c = Inr self"
  shows "encoder_feat_dim self = arg_encoder_feat_dim c"
    and "camera_embed_dim self = arg_camera_embed_dim c"
    and "triplane_low_res self = arg_triplane_low_res c"
    and "triplane_high_res self = arg_triplane_high_res c"
    and "triplane_dim self = arg_triplane_dim c"
    and "conv_fuse self = arg_conv_fuse c"
    and "swin_ca_fuse self = arg_swin_ca_fuse c"
    and "param (pos_embed self) =
           tabulate [1, 3 * (arg_triplane_low_res c)\<^sup>2, arg_transformer_dim c] (pos_embed_init ext)"
    and "param (weight (upsampler self)) =
           tabulate [arg_transformer_dim c, arg_triplane_dim c, 2, 2] (upsampler_weight_init ext)"
    and "0 < arg_model_lora_rank c \<Longrightarrow> arg_conv_fuse c \<Longrightarrow>
           front_back_conv self = Some (front_back_conv_layers ext c)"
  using assms unfolding init_def Let_def freeze_case
  by (auto simp add: bindE_def freeze_modules_keeps_flags freeze_modules_keeps_sizes
      split: sum.splits option.splits encoder_class.splits if_splits)

lemma repeat_first_eq:
  assumes "shape p = [1, L, D]"
  shows "\<exists>x. repeat_first N p = Inr x \<and> shape x = [N, L, D] \<and> (wf p \<longrightarrow> wf x)"
proof -
  have "length (concat (replicate N (data p))) = N * length (data p)"
    by (induction N) simp_all
  then show ?thesis using assms by (simp add: repeat_first_def wf_def)
qed

text \<open>
  C5. For a model built by \<^verbatim>\<open>__init__\<close> and an image batch of size \<open>N > 0\<close> on which
  the collaborators keep their interfaces (the encoder returns \<open>[N, L, encoder_feat_dim]\<close>,
  the camera embedder \<open>[N, camera_embed_dim]\<close>, the decoder tokens of the shape of the
  positional tokens it is given), \<^verbatim>\<open>forward_planes\<close> returns planes of shape
  \<open>[N, 3, triplane_dim, 2 * triplane_low_res, 2 * triplane_low_res]\<close>: the last three sizes
  are arguments of \<^verbatim>\<open>__init__\<close> and do not depend on \<open>N\<close>. Returning, the run has passed
  the two closing assertions on the batch size and on the number of planes.
\<close>

theorem forward_planes_shape:
  fixes self :: "('a::semiring_0) model"
  assumes init: "init ext c = Inr self"
    and pos: "0 < N" "0 < arg_triplane_low_res c" "0 < arg_transformer_dim c"
      "0 < arg_triplane_dim c"
    and img: "shape img = [N, C, H, W]"
    and enc: "call (encoder self) img = Inr image_feats"
      "shape image_feats = [N, L, arg_encoder_feat_dim c]"
    and cam: "call (camera_embedder self) camera = Inr camera_embeddings"
      "shape camera_embeddings = [N, arg_camera_embed_dim c]"
    and dec: "\<forall>x. wf x \<and> shape x = [N, 3 * (arg_triplane_low_res c)\<^sup>2, arg_transformer_dim c] \<longrightarrow>
        (\<exists>tokens. call (transformer self) (x, image_feats, camera_embeddings) = Inr tokens \<and>
           shape tokens = shape x)"
  shows "\<exists>planes. snd (forward_planes self img camera) = Inr planes \<and> wf planes \<and>
     shape planes =
       [N, 3, arg_triplane_dim c, 2 * arg_triplane_low_res c, 2 * arg_triplane_low_res c]"
proof -
  note f = init_fields [OF init]
  have pe: "shape (param (pos_embed self)) =
      [1, 3 * (arg_triplane_low_res c)\<^sup>2, arg_transformer_dim c]" "wf (param (pos_embed self))"
    by (simp_all add: f)
  from repeat_first_eq [OF pe(1), of N] pe(2) obtain x where
    x: "repeat_first N (param (pos_embed self)) = Inr x"
      "shape x = [N, 3 * (arg_triplane_low_res c)\<^sup>2, arg_transformer_dim c]" "wf x"
    by blast
  from dec x obtain tokens where
    t: "call (transformer self) (x, image_feats, camera_embeddings) = Inr tokens"
      "shape tokens = [N, 3 * (triplane_low_res self)\<^sup>2, arg_transformer_dim c]"
    by (auto simp add: f)
  have tr: "forward_transformer self image_feats camera_embeddings =
      ([(TransformerCall, [x, image_feats, camera_embeddings])], Inr tokens)"
    by (simp add: forward_transformer_def size_at_def enc cam assert_def x t invoke_def)
  have shw: "shape (param (weight (upsampler self))) =
      [arg_transformer_dim c, arg_triplane_dim c, 2, 2]"
    by (simp add: f)
  from reshape_upsample_run [OF t(2) pos(1) _ shw] pos(2) obtain y planes where
    r: "reshape_upsample self tokens = ([(UpsamplerCall, [y])], Inr planes)"
      "shape planes =
        [N, 3, arg_triplane_dim c, 2 * arg_triplane_low_res c, 2 * arg_triplane_low_res c]"
      "wf planes"
    by (auto simp add: f)
  have "snd (forward_planes self img camera) = Inr planes"
    by (simp add: forward_planes_def size_at_def size_last_def assert_def img enc cam f tr r
        bindT_Inr)
  with r show ?thesis by blast
qed

lemma M0_transformer: "call (transformer M0) (x, a, b) = Inr x"
  by (simp add: M0_def init_def cfg0_def encoder_fn_dino freeze_modules_def Let_def ext0_def
      frozen_def)

theorem forward_planes_shape_witness:
  "init ext0 cfg0 = Inr M0 \<and> (0::nat) < 2 \<and> 0 < arg_triplane_low_res cfg0 \<and>
   0 < arg_transformer_dim cfg0 \<and> 0 < arg_triplane_dim cfg0 \<and>
   shape (image0 2) = [2, 3, 2, 2] \<and>
   call (encoder M0) (image0 2) = Inr (tabulate [2, 1, 2] (\<lambda>idx. 1)) \<and>
   arg_encoder_feat_dim cfg0 = 2 \<and>
   call (camera_embedder M0) (camera0 2) = Inr (tabulate [2, 3] (\<lambda>idx. 0)) \<and>
   arg_camera_embed_dim cfg0 = 3 \<and>
   (\<exists>planes. snd (forward_planes M0 (image0 2) (camera0 2)) = Inr planes \<and> wf planes \<and>
      shape planes = [2, 3, 1, 2, 2])"
proof -
  have p: "(0::nat) < 2" "0 < arg_triplane_low_res cfg0" "0 < arg_transformer_dim cfg0"
    "0 < arg_triplane_dim cfg0"
    by (simp_all add: cfg0_def)
  have c: "arg_encoder_feat_dim cfg0 = 2" "arg_camera_embed_dim cfg0 = 3"
    "arg_triplane_dim cfg0 = 1" "arg_triplane_low_res cfg0 = 1"
    by (simp_all add: cfg0_def)
  have e: "shape (tabulate [2, 1, 2] (\<lambda>idx. 1::int)) = [2, 1, arg_encoder_feat_dim cfg0]"
    by (simp add: c)
  have m: "shape (tabulate [2, 3] (\<lambda>idx. 0::int)) = [2, arg_camera_embed_dim cfg0]"
    by (simp add: c)
  have d: "\<forall>x. wf x \<and> shape x = [2, 3 * (arg_triplane_low_res cfg0)\<^sup>2, arg_transformer_dim cfg0] \<longrightarrow>
     (\<exists>tokens. call (transformer M0)
         (x, tabulate [2, 1, 2] (\<lambda>idx. 1), tabulate [2, 3] (\<lambda>idx. 0)) = Inr tokens \<and>
        shape tokens = shape x)"
    by (simp add: M0_transformer)
  from forward_planes_shape [OF init_cfg0 p shape_image0 M0_encoder(1) e M0_camera_embedder(1) m d]
  have "\<exists>planes. snd (forward_planes M0 (image0 2) (camera0 2)) = Inr planes \<and> wf planes \<and>
      shape planes = [2, 3, 1, 2, 2]"
    by (simp add: c)
  then show ?thesis
    using init_cfg0 p c shape_image0 M0_encoder(1) M0_camera_embedder(1) by simp
qed


section \<open>Fusion\<close>

lemma cat2_eq:
  assumes "shape a = [N, P, D, H, W]" "shape b = [N, P, D, H, W]"
  shows "\<exists>x. cat2 a b = Inr x \<and> shape x = [N, P, D + D, H, W]"
  using assms by (simp add: cat2_def Let_def eval_nat_numeral)

lemma conv_fusion_shape:
  fixes self :: "'a model"
  assumes layers: "front_back_conv self = Some (front_back_conv_layers ext c)"
    and sh: "shape front_planes = [N, 3, D, H, W]" "shape back_planes = [N, 3, D, H, W]"
    and pos: "0 < N" "0 < D" "0 < H"
    and cfg: "D = arg_triplane_dim c" "H = arg_triplane_high_res c" "W = arg_triplane_high_res c"
  shows "\<exists>l out. conv_fusion self N 3 D H W front_planes back_planes = (l, Inr out) \<and>
     shape out = [N, 3, D, H, W] \<and>
     map (\<lambda>(k, args). (k, map shape args)) l =
       (FrontBackConvCall, [[3 * N, 2 * D, H, W]]) #
       replicate 6 (FrontBackConvCall, [[3 * N, 4 * D, H, W]])"
proof -
  from cat2_eq [OF sh] obtain x0 where
    x0: "cat2 front_planes back_planes = Inr x0" "shape x0 = [N, 3, D + D, H, W]"
    by blast
  let ?x1 = "x0\<lparr>shape := [3 * N, D * 2, H, W]\<rparr>"
  have v1: "view [None, Some (D * 2), Some H, Some W] x0 = Inr ?x1"
    using view_one_hole [of "[None, Some (D * 2), Some H, Some W]" "D * 2 * H * W" x0 "3 * N"]
      x0(2) pos cfg by (simp add: algebra_simps)
  obtain l x7 where run: "apply_layers (front_back_conv_layers ext c) ?x1 = (l, Inr x7)"
    and s7: "shape x7 = [3 * N, D, H, W]"
    and l: "map (\<lambda>(k, args). (k, map shape args)) l =
       (FrontBackConvCall, [[3 * N, 2 * D, H, W]]) #
       replicate 6 (FrontBackConvCall, [[3 * N, 4 * D, H, W]])"
    using cfg
    by (simp add: front_back_conv_layers_def bindT_Inr invoke_def liftE_def eval_nat_numeral
        mult.commute)
  have v2: "view [Some N, Some 3, None, Some H, Some W] x7 = Inr (x7\<lparr>shape := [N, 3, D, H, W]\<rparr>)"
    using view_one_hole [of "[Some N, Some 3, None, Some H, Some W]" "N * 3 * H * W" x7 D]
      s7 pos cfg by (simp add: algebra_simps)
  have "conv_fusion self N 3 D H W front_planes back_planes =
      (l, Inr (x7\<lparr>shape := [N, 3, D, H, W]\<rparr>))"
    by (simp add: conv_fusion_def x0 v1 layers run bindT_Inr v2 liftE_def)
  with l show ?thesis by simp
qed

lemma permute_021:
  assumes "shape x = [B, C, L]"
  shows "\<exists>y. permute [0, 2, 1] x = Inr y \<and> shape y = [B, L, C]"
  using assms by (simp add: permute_def Let_def eval_nat_numeral)

lemma view_tokens:
  assumes "shape x = [N, 3, D, H, W]"
  shows "view [Some (N * 3), Some D, Some (H * W)] x = Inr (x\<lparr>shape := [N * 3, D, H * W]\<rparr>)"
  using view_no_hole [of "[N * 3, D, H * W]" x] assms by (simp add: algebra_simps)

lemma swin_ca_fusion_shape:
  fixes self :: "'a model"
  assumes layer: "swin_cross_attention self = Some layer"
    and sh: "shape front_planes = [N, 3, D, H, W]" "shape back_planes = [N, 3, D, H, W]"
    and contract: "\<forall>f b. shape f = [N * 3, H * W, D] \<longrightarrow>
        (\<exists>out rest. call layer (f, b, H, W) = Inr (out # rest) \<and> shape out = shape f)"
  shows "\<exists>out. snd (swin_ca_fusion self N 3 D H W front_planes back_planes) = Inr out \<and>
     shape out = [N, 3, D, H, W]"
proof -
  from permute_021 [of "front_planes\<lparr>shape := [N * 3, D, H * W]\<rparr>" "N * 3" D "H * W"]
  obtain f where f: "permute [0, 2, 1] (front_planes\<lparr>shape := [N * 3, D, H * W]\<rparr>) = Inr f"
    "shape f = [N * 3, H * W, D]" by auto
  from permute_021 [of "back_planes\<lparr>shape := [N * 3, D, H * W]\<rparr>" "N * 3" D "H * W"]
  obtain b where b: "permute [0, 2, 1] (back_planes\<lparr>shape := [N * 3, D, H * W]\<rparr>) = Inr b"
    by auto
  from contract f(2) obtain out rest where
    o: "call layer (f, b, H, W) = Inr (out # rest)" "shape out = [N * 3, H * W, D]"
    by fastforce
  from permute_021 [OF o(2)] obtain y where
    y: "permute [0, 2, 1] out = Inr y" "shape y = [N * 3, D, H * W]" by blast
  have v: "view [Some N, Some 3, Some D, Some H, Some W] y = Inr (y\<lparr>shape := [N, 3, D, H, W]\<rparr>)"
    using view_no_hole [of "[N, 3, D, H, W]" y] y(2) by (simp add: algebra_simps)
  have "snd (swin_ca_fusion self N 3 D H W front_planes back_planes) =
      Inr (y\<lparr>shape := [N, 3, D, H, W]\<rparr>)"
    unfolding swin_ca_fusion_def
    by (simp only: view_tokens [OF sh(1)] view_tokens [OF sh(2)] f b layer o y v
        bindE_Inr bindT_liftE_Inr bindT_invoke_Inr option.case list.case snd_liftE snd_conv)
  then show ?thesis by simp
qed


lemma init_cfg_swin: "init ext0 cfg_swin = Inr M_swin"
  by (simp add: M_swin_def init_def cfg_swin_def cfg0_def encoder_fn_dino freeze_modules_def Let_def)

lemma M_swin_fields:
  "\<not> conv_fuse M_swin" "swin_ca_fuse M_swin"
  "swin_cross_attention M_swin = Some (CrossAttentionLayer ext0 32 2 8 2)"
  by (simp_all add: M_swin_def init_def cfg_swin_def cfg0_def encoder_fn_dino freeze_modules_def
      Let_def)

lemma ext0_cross_attention:
  "call (CrossAttentionLayer ext0 dim depth heads window) (f, b, H, W) = Inr [f, b]"
  by (simp add: ext0_def)


lemma init_cfg_res: "init ext0 cfg_res = Inr M_res"
  by (simp add: M_res_def init_def cfg_res_def cfg0_def encoder_fn_dino freeze_modules_def Let_def)

lemma fuse_M_res:
  "snd (fuse M_res T0 T0) = Inl (RuntimeError ''input does not match normalized_shape'')"
  by code_simp

lemma forward_M_res_back:
  "snd (forward M_res (image0 1) (camera0 1) (render_cameras0 1) (render_anchors0 1)
          (render_resolutions0 1) (render_bg_colors0 1) 1 (Some (image0 1))) =
     Inl (RuntimeError ''input does not match normalized_shape'')"
  by code_simp


end
